theory Spec2Isabelle
  imports Main "HOL-Library.Word" "HOL-Library.Signed_Division"
begin

unbundle bit_operations_syntax

section \<open>Primitive types (IGACommon.h)\<close>

text \<open>
  The library is written for a little-endian platform with a 64-bit \<open>size_t\<close> and a
  32-bit \<open>int\<close>. A C++ \<open>char\<close> is a byte, and a \<open>double\<close> is carried as its
  IEEE-754 binary64 bit pattern: the code only copies doubles, compares them and tests
  them with \<open>finite\<close>, and all three are functions of the bit pattern.
\<close>

type_synonym uint8_t = "8 word"
type_synonym uint32_t = "32 word"
type_synonym int32_t = "32 word"
type_synonym uint64_t = "64 word"
type_synonym double = "64 word"

definition INVALID_INDEX :: uint32_t where
  "INVALID_INDEX = 0xFFFFFFFF"

definition IGA_MAX_ALLOC :: nat where
  "IGA_MAX_ALLOC = 256000000"

text \<open>A string literal of the source, as its bytes (without the terminating null).\<close>

definition cstr :: "string \<Rightarrow> uint8_t list" where
  "cstr s = map of_char s"

subsection \<open>Memory as bytes\<close>

text \<open>
  \<open>reinterpret_cast< char * >\<close> of an integer or a double: its bytes, least significant
  first, and the way back.
\<close>

definition le_word :: "uint8_t list \<Rightarrow> 'a::len word" where
  "le_word bs = foldr (\<lambda>b acc. ucast b OR push_bit 8 acc) bs 0"

definition le_bytes :: "nat \<Rightarrow> 'a::len word \<Rightarrow> uint8_t list" where
  "le_bytes n w = map (\<lambda>i. ucast (drop_bit (8 * i) w)) [0..<n]"

subsection \<open>Doubles\<close>

definition d_exponent :: "double \<Rightarrow> nat" where
  "d_exponent v = unat (drop_bit 52 v AND 0x7FF)"

definition d_fraction :: "double \<Rightarrow> nat" where
  "d_fraction v = unat (v AND 0xFFFFFFFFFFFFF)"

definition d_isnan :: "double \<Rightarrow> bool" where
  "d_isnan v = (d_exponent v = 0x7FF \<and> d_fraction v \<noteq> 0)"

text \<open>\<open>finite( x )\<close>: neither an infinity nor a NaN.\<close>

definition finite_d :: "double \<Rightarrow> bool" where
  "finite_d v = (d_exponent v \<noteq> 0x7FF)"

text \<open>
  The position of a non-NaN double on the number line, as far as comparisons go: the
  magnitude bits with the sign applied, so that both zeros are at 0.
\<close>

definition d_rank :: "double \<Rightarrow> int" where
  "d_rank v = (if bit v 63 then - int (unat (take_bit 63 v)) else int (unat (take_bit 63 v)))"

text \<open>\<open>a < b\<close> and \<open>a >= b\<close> on doubles: false as soon as one side is a NaN.\<close>

definition d_less :: "double \<Rightarrow> double \<Rightarrow> bool" where
  "d_less a b = (\<not> d_isnan a \<and> \<not> d_isnan b \<and> d_rank a < d_rank b)"

definition d_ge :: "double \<Rightarrow> double \<Rightarrow> bool" where
  "d_ge a b = (\<not> d_isnan a \<and> \<not> d_isnan b \<and> d_rank b \<le> d_rank a)"

definition d_zero :: double where
  "d_zero = 0"

definition d_one :: double where
  "d_one = 0x3FF0000000000000"

section \<open>tagValue (IGACommon.cpp)\<close>

text \<open>
  The argument is the memory at \<open>tag_text\<close>. The scan stops at the first null byte or
  after eight characters; the end of the list stands for the end of the array that
  holds the text (the callers pass null-terminated literals and the 8-byte
  \<open>block_tag\<close> array). \<open>result\<close> is the eight bytes of the returned integer, \<open>t\<close> the
  offset of the write pointer into them.
\<close>

fun tag_copy :: "uint8_t list \<Rightarrow> uint8_t list \<Rightarrow> nat \<Rightarrow> nat \<Rightarrow> uint8_t list \<times> nat \<times> nat" where
  "tag_copy [] result t char_count = (result, t, char_count)"
| "tag_copy (c # cs) result t char_count =
     (if c \<noteq> 0 \<and> char_count < 8
      then tag_copy cs (result[t := c]) (Suc t) (Suc char_count)
      else (result, t, char_count))"

function tag_pad :: "uint8_t list \<Rightarrow> nat \<Rightarrow> nat \<Rightarrow> uint8_t list" where
  "tag_pad result t char_count =
     (if char_count < 8
      then (if char_count = 7
            then tag_pad (result[t := 0x0A]) t (Suc char_count)
            else tag_pad (result[t := 0x2D]) (Suc t) (Suc char_count))
      else result)"
  by pat_completeness auto
termination
  by (relation "measure (\<lambda>(result, t, char_count). 8 - char_count)") auto

definition tagValue :: "uint8_t list \<Rightarrow> uint64_t" where
  "tagValue tag_text =
     (case tag_copy tag_text (replicate 8 0) 0 0 of
        (result, t, char_count) \<Rightarrow> le_word (tag_pad result t char_count))"

section \<open>The geometry model (IGAData.h)\<close>

record Point3d =
  pt_x :: double
  pt_y :: double
  pt_z :: double
  pt_w :: double

record Piece2D =
  st_order :: uint32_t
  s_index :: uint32_t
  maybe_t_index :: uint32_t
  pt_index :: uint32_t

text \<open>\<open>uint32_t side_range[ 5 ]\<close>: five values, read with \<open>side_range\<close>.\<close>

datatype FaceLayout = FaceLayout uint32_t uint32_t uint32_t uint32_t uint32_t

fun side_ranges :: "FaceLayout \<Rightarrow> uint32_t list" where
  "side_ranges (FaceLayout a b c d e) = [a, b, c, d, e]"

definition side_range :: "FaceLayout \<Rightarrow> nat \<Rightarrow> uint32_t" where
  "side_range l i = side_ranges l ! i"

definition default_layout :: FaceLayout where
  "default_layout = FaceLayout 0 1 2 3 4"

record Elem =
  piece_end_index :: uint32_t
  layout_index :: uint32_t
  edge_end_index :: uint32_t

record IGAData =
  mSrfType :: "uint8_t list"
  mCoeffs :: "double list"
  mPoints :: "Point3d list"
  mPieces :: "Piece2D list"
  mEdges :: "uint32_t list"
  mIntervals :: "double list"
  mLayouts :: "FaceLayout list"
  mElems :: "Elem list"

text \<open>\<open>IGAData()\<close>, which is also what \<open>clear\<close> assigns.\<close>

definition IGAData_init :: IGAData where
  "IGAData_init =
     \<lparr>mSrfType = cstr ''unknown'', mCoeffs = [], mPoints = [], mPieces = [], mEdges = [],
      mIntervals = [], mLayouts = [], mElems = []\<rparr>"

definition clear :: "IGAData \<Rightarrow> IGAData" where
  "clear g = IGAData_init"

subsection \<open>Accessors (IGAData.cpp)\<close>

text \<open>
  An accessor that indexes a vector without a bounds check returns \<open>None\<close> where the
  index is out of range (undefined behaviour in the source).
\<close>

definition edgeBegin :: "IGAData \<Rightarrow> uint32_t \<Rightarrow> uint32_t" where
  "edgeBegin g elem_index =
     (if length (mElems g) \<le> unat elem_index then INVALID_INDEX
      else if elem_index = 0 then 0
      else edge_end_index (mElems g ! (unat elem_index - 1)))"

definition edgeCount :: "IGAData \<Rightarrow> uint32_t" where
  "edgeCount g = of_nat (length (mEdges g))"

definition edgeEnd :: "IGAData \<Rightarrow> uint32_t \<Rightarrow> uint32_t" where
  "edgeEnd g elem_index =
     (if length (mElems g) \<le> unat elem_index then INVALID_INDEX
      else edge_end_index (mElems g ! unat elem_index))"

definition edgeInterval :: "IGAData \<Rightarrow> uint32_t \<Rightarrow> double option" where
  "edgeInterval g edge_index =
     (if mIntervals g = [] then Some d_one
      else if unat edge_index < length (mIntervals g) then Some (mIntervals g ! unat edge_index)
      else None)"

definition pieceCount :: "IGAData \<Rightarrow> uint32_t" where
  "pieceCount g = of_nat (length (mPieces g))"

definition layout :: "IGAData \<Rightarrow> uint32_t \<Rightarrow> FaceLayout option" where
  "layout g index =
     (if index = 0 then Some default_layout
      else if unat index < length (mLayouts g) then Some (mLayouts g ! unat index)
      else None)"

definition elemEdgeCount :: "IGAData \<Rightarrow> uint32_t \<Rightarrow> uint32_t option" where
  "elemEdgeCount g elem_index =
     (if unat elem_index < length (mElems g)
      then map_option (\<lambda>l. side_range l 4) (layout g (layout_index (mElems g ! unat elem_index)))
      else None)"


subsection \<open>isValid (IGAData.cpp)\<close>

text \<open>
  \<open>std::lexicographical_compare\<close>, which \<open>FaceLayout::operator<\<close> and
  \<open>CoeffVectorLessThan\<close> apply to their element order.
\<close>

fun lexicographical_compare :: "('a \<Rightarrow> 'a \<Rightarrow> bool) \<Rightarrow> 'a list \<Rightarrow> 'a list \<Rightarrow> bool" where
  "lexicographical_compare lt [] [] = False"
| "lexicographical_compare lt [] (b # bs) = True"
| "lexicographical_compare lt (a # as) [] = False"
| "lexicographical_compare lt (a # as) (b # bs) =
     (if lt a b then True
      else if lt b a then False
      else lexicographical_compare lt as bs)"

definition FaceLayout_less :: "FaceLayout \<Rightarrow> FaceLayout \<Rightarrow> bool" where
  "FaceLayout_less lhs rhs = lexicographical_compare (<) (side_ranges lhs) (side_ranges rhs)"

text \<open>
  Signed \<open>int\<close> arithmetic that leaves the range of \<open>int\<close>, and integer division by zero,
  are undefined behaviour; a function that can reach one returns it as a value.
\<close>

datatype undefined_behaviour = DivisionByZero | SignedOverflow

definition INT_MAX :: int where
  "INT_MAX = 2147483647"

definition point_finite :: "Point3d \<Rightarrow> bool" where
  "point_finite pt = (\<not> (\<not> finite_d (pt_x pt) \<or> \<not> finite_d (pt_y pt) \<or> \<not> finite_d (pt_z pt)
                        \<or> \<not> finite_d (pt_w pt)))"

text \<open>
  \<open>std::set< FaceLayout >::insert\<close>: nothing is added when the set holds an element
  that the order cannot tell from the new one.
\<close>

definition set_insert :: "('a \<Rightarrow> 'a \<Rightarrow> bool) \<Rightarrow> 'a \<Rightarrow> 'a list \<Rightarrow> 'a list" where
  "set_insert lt v elems =
     (if list_ex (\<lambda>e. \<not> lt e v \<and> \<not> lt v e) elems then elems else elems @ [v])"

text \<open>The loop over the layouts: \<open>None\<close> is \<open>return false\<close>, otherwise the set built.\<close>

fun layouts_loop :: "nat \<Rightarrow> FaceLayout list \<Rightarrow> FaceLayout list \<Rightarrow> FaceLayout list option" where
  "layouts_loop ilayout [] layouts = Some layouts"
| "layouts_loop ilayout (l # ls) layouts =
     (if ilayout = 0 \<and> (FaceLayout_less l default_layout \<or> FaceLayout_less default_layout l)
      then None
      else if side_range l 1 \<le> side_range l 0 \<or> side_range l 2 \<le> side_range l 1 \<or>
              side_range l 3 \<le> side_range l 2 \<or> side_range l 4 \<le> side_range l 3
      then None
      else layouts_loop (Suc ilayout) ls (set_insert FaceLayout_less l layouts))"

text \<open>
  The loop over the pieces. \<open>s_order\<close> and \<open>t_order\<close> are \<open>int\<close>, so their product is
  an \<open>int\<close> product; \<open>s_index + s_order\<close> and \<open>maybe_t_index + t_order\<close> are sums of a
  \<open>uint32_t\<close> and an \<open>int\<close>, computed in 32-bit unsigned arithmetic.
\<close>

fun pieces_loop :: "IGAData \<Rightarrow> Piece2D list \<Rightarrow> undefined_behaviour + bool" where
  "pieces_loop g [] = Inr True"
| "pieces_loop g (piece # ps) =
     (if length (mPoints g) \<le> unat (pt_index piece) then Inr False
      else if maybe_t_index piece = INVALID_INDEX
      then (if INT_MAX < int (unat (st_order piece AND 0xFFFF)) * int (unat (drop_bit 16 (st_order piece)))
            then Inl SignedOverflow
            else if length (mCoeffs g) <
                      unat (s_index piece)
                      + unat (st_order piece AND 0xFFFF) * unat (drop_bit 16 (st_order piece))
            then Inr False
            else pieces_loop g ps)
      else (if length (mCoeffs g) < unat (s_index piece + (st_order piece AND 0xFFFF))
            then Inr False
            else if length (mCoeffs g) < unat (maybe_t_index piece + drop_bit 16 (st_order piece))
            then Inr False
            else pieces_loop g ps))"

text \<open>
  The loop over the elements, with \<open>last_edge_end\<close> and \<open>last_piece_end\<close>: \<open>None\<close> is
  \<open>return false\<close>, otherwise the two values after the last element.
\<close>

fun elems_loop :: "IGAData \<Rightarrow> Elem list \<Rightarrow> uint32_t \<Rightarrow> uint32_t \<Rightarrow> (uint32_t \<times> uint32_t) option" where
  "elems_loop g [] last_edge_end last_piece_end = Some (last_edge_end, last_piece_end)"
| "elems_loop g (elem # es) last_edge_end last_piece_end =
     (if edge_end_index elem < last_edge_end then None
      else if length (mEdges g) < unat (edge_end_index elem) then None
      else if piece_end_index elem < last_piece_end then None
      else if length (mPieces g) < unat (piece_end_index elem) then None
      else if layout_index elem \<noteq> 0 \<and> length (mLayouts g) \<le> unat (layout_index elem) then None
      else if unat (layout_index elem) < length (mLayouts g) \<and>
              edge_end_index elem - last_edge_end
                \<noteq> side_range (mLayouts g ! unat (layout_index elem)) 4
      then None
      else elems_loop g es (edge_end_index elem) (piece_end_index elem))"

definition isValid :: "IGAData \<Rightarrow> undefined_behaviour + bool" where
  "isValid g =
     (if \<not> list_all finite_d (mCoeffs g) then Inr False
      else if \<not> list_all point_finite (mPoints g) then Inr False
      else case layouts_loop 0 (mLayouts g) [] of
        None \<Rightarrow> Inr False
      | Some layouts \<Rightarrow>
          if length layouts \<noteq> length (mLayouts g) then Inr False
          else if 1 < length (mLayouts g) \<and> mIntervals g = [] then Inr False
          else case pieces_loop g (mPieces g) of
            Inl ub \<Rightarrow> Inl ub
          | Inr pieces_ok \<Rightarrow>
              if \<not> pieces_ok then Inr False
              else if mIntervals g \<noteq> [] \<and> length (mEdges g) \<noteq> length (mIntervals g) then Inr False
              else if list_ex (\<lambda>v. d_less v d_zero \<or> \<not> finite_d v) (mIntervals g) then Inr False
              else if list_ex (\<lambda>e. e \<noteq> INVALID_INDEX \<and> length (mElems g) \<le> unat e) (mEdges g)
              then Inr False
              else case elems_loop g (mElems g) 0 0 of
                None \<Rightarrow> Inr False
              | Some (last_edge_end, last_piece_end) \<Rightarrow>
                  if unat last_edge_end \<noteq> length (mEdges g) \<or>
                     unat last_piece_end \<noteq> length (mPieces g)
                  then Inr False
                  else Inr True)"

section \<open>The builder (IGACreator)\<close>

text \<open>
  \<open>std::vector< T >::max_size()\<close> belongs to the standard library; on the platform
  described above it is \<open>PTRDIFF_MAX / sizeof( T )\<close>.
\<close>

definition max_size :: "nat \<Rightarrow> nat" where
  "max_size elem_size = (2 ^ 63 - 1) div elem_size"

text \<open>
  A \<open>std::map\<close> with a comparison object, as its entries: \<open>find\<close> returns the value of
  the entry whose key the order cannot tell from the one looked up, and
  \<open>m[ k ] = v\<close> overwrites that entry's value or adds an entry.
\<close>

fun map_find :: "('k \<Rightarrow> 'k \<Rightarrow> bool) \<Rightarrow> 'k \<Rightarrow> ('k \<times> 'v) list \<Rightarrow> 'v option" where
  "map_find lt k [] = None"
| "map_find lt k ((k', v) # m) =
     (if \<not> lt k' k \<and> \<not> lt k k' then Some v else map_find lt k m)"

fun map_assign :: "('k \<Rightarrow> 'k \<Rightarrow> bool) \<Rightarrow> 'k \<Rightarrow> 'v \<Rightarrow> ('k \<times> 'v) list \<Rightarrow> ('k \<times> 'v) list" where
  "map_assign lt k v [] = [(k, v)]"
| "map_assign lt k v ((k', v') # m) =
     (if \<not> lt k' k \<and> \<not> lt k k' then (k', v) # m else (k', v') # map_assign lt k v m)"

definition CoeffVectorLessThan :: "double list \<Rightarrow> double list \<Rightarrow> bool" where
  "CoeffVectorLessThan a b = lexicographical_compare d_less a b"

record IGACreator =
  mParent :: IGAData
  mCoeffLookup :: "(double list \<times> uint32_t) list"
  mLayoutLookup :: "(FaceLayout \<times> uint32_t) list"

text \<open>The constructor.\<close>

definition IGACreator_init :: "IGAData \<Rightarrow> IGACreator" where
  "IGACreator_init parent = \<lparr>mParent = clear parent, mCoeffLookup = [], mLayoutLookup = []\<rparr>"

text \<open>
  \<open>safeAppend\<close> returns the index and the vector, which \<open>elem_size\<close> (\<open>sizeof( T )\<close>)
  bounds in length.
\<close>

definition safeAppend :: "nat \<Rightarrow> 'a list \<Rightarrow> 'a \<Rightarrow> uint32_t \<times> 'a list" where
  "safeAppend elem_size vec v =
     (if unat (INVALID_INDEX - 1) \<le> length vec \<or> max_size elem_size \<le> length vec
      then (INVALID_INDEX, vec)
      else (of_nat (length vec), vec @ [v]))"

definition addCoeffs :: "double list \<Rightarrow> IGACreator \<Rightarrow> uint32_t \<times> IGACreator" where
  "addCoeffs coeffs c =
     (if unat INVALID_INDEX \<le> length (mCoeffs (mParent c)) + length coeffs \<or>
         max_size 8 < length (mCoeffs (mParent c)) + length coeffs \<or>
         0x7FFF \<le> length coeffs
      then (INVALID_INDEX, c)
      else (of_nat (length (mCoeffs (mParent c))),
            c\<lparr>mParent := (mParent c)\<lparr>mCoeffs := mCoeffs (mParent c) @ coeffs\<rparr>\<rparr>))"

definition addEdge :: "uint32_t \<Rightarrow> double \<Rightarrow> IGACreator \<Rightarrow> uint32_t \<times> IGACreator" where
  "addEdge elem knot_interval c =
     (case safeAppend 4 (mEdges (mParent c)) elem of
        (edge_index, edges) \<Rightarrow>
          if d_ge knot_interval d_zero
          then (case safeAppend 8 (mIntervals (mParent c)) knot_interval of
                  (interval_index, intervals) \<Rightarrow>
                    if edge_index \<noteq> interval_index
                    then (INVALID_INDEX,
                          c\<lparr>mParent := (mParent c)\<lparr>mEdges := edges, mIntervals := intervals\<rparr>\<rparr>)
                    else (edge_index,
                          c\<lparr>mParent := (mParent c)\<lparr>mEdges := edges, mIntervals := intervals\<rparr>\<rparr>))
          else if mIntervals (mParent c) \<noteq> []
          then (INVALID_INDEX, c\<lparr>mParent := (mParent c)\<lparr>mEdges := edges\<rparr>\<rparr>)
          else (edge_index, c\<lparr>mParent := (mParent c)\<lparr>mEdges := edges\<rparr>\<rparr>))"

definition addElem :: "Elem \<Rightarrow> IGACreator \<Rightarrow> uint32_t \<times> IGACreator" where
  "addElem elem c =
     (case safeAppend 12 (mElems (mParent c)) elem of
        (i, elems) \<Rightarrow> (i, c\<lparr>mParent := (mParent c)\<lparr>mElems := elems\<rparr>\<rparr>))"

definition addLayout :: "FaceLayout \<Rightarrow> IGACreator \<Rightarrow> uint32_t \<times> IGACreator" where
  "addLayout l c =
     (case safeAppend 20 (mLayouts (mParent c)) l of
        (i, layouts) \<Rightarrow> (i, c\<lparr>mParent := (mParent c)\<lparr>mLayouts := layouts\<rparr>\<rparr>))"

definition addPiece :: "Piece2D \<Rightarrow> IGACreator \<Rightarrow> uint32_t \<times> IGACreator" where
  "addPiece piece c =
     (case safeAppend 16 (mPieces (mParent c)) piece of
        (i, pieces) \<Rightarrow> (i, c\<lparr>mParent := (mParent c)\<lparr>mPieces := pieces\<rparr>\<rparr>))"

definition addPoint :: "Point3d \<Rightarrow> IGACreator \<Rightarrow> uint32_t \<times> IGACreator" where
  "addPoint pt c =
     (case safeAppend 32 (mPoints (mParent c)) pt of
        (i, points) \<Rightarrow> (i, c\<lparr>mParent := (mParent c)\<lparr>mPoints := points\<rparr>\<rparr>))"

definition getDictionaryIndex :: "double list \<Rightarrow> IGACreator \<Rightarrow> uint32_t \<times> IGACreator" where
  "getDictionaryIndex coeffs c =
     (if list_ex (\<lambda>i. \<not> finite_d i) coeffs then (INVALID_INDEX, c)
      else case map_find CoeffVectorLessThan coeffs (mCoeffLookup c) of
        Some found \<Rightarrow> (found, c)
      | None \<Rightarrow>
          (case addCoeffs coeffs c of
             (new_index, c') \<Rightarrow>
               if new_index = INVALID_INDEX then (INVALID_INDEX, c')
               else (new_index,
                     c'\<lparr>mCoeffLookup :=
                          map_assign CoeffVectorLessThan coeffs new_index (mCoeffLookup c')\<rparr>)))"

definition getLayoutIndex :: "FaceLayout \<Rightarrow> IGACreator \<Rightarrow> uint32_t \<times> IGACreator" where
  "getLayoutIndex l c =
     (case map_find FaceLayout_less l (mLayoutLookup c) of
        Some found \<Rightarrow> (found, c)
      | None \<Rightarrow>
          (case addLayout l
                  (if mLayouts (mParent c) = [] \<and>
                      (FaceLayout_less l default_layout \<or> FaceLayout_less default_layout l)
                   then c\<lparr>mLayoutLookup :=
                            map_assign FaceLayout_less default_layout 0 (mLayoutLookup c),
                          mParent := (mParent c)\<lparr>mLayouts := mLayouts (mParent c) @ [default_layout]\<rparr>\<rparr>
                   else c) of
             (new_index, c') \<Rightarrow>
               if new_index = INVALID_INDEX then (INVALID_INDEX, c')
               else (new_index,
                     c'\<lparr>mLayoutLookup :=
                          map_assign FaceLayout_less l new_index (mLayoutLookup c')\<rparr>)))"

text \<open>
  \<open>s_order\<close> is an \<open>int\<close>, read from its 32 bits with \<open>sint\<close>. The quotient of two \<open>int\<close>s is rounded towards zero
  (\<open>sdiv\<close>), and the division comes before any check of \<open>s_order\<close>.
\<close>

definition addExplicitPiece ::
  "int32_t \<Rightarrow> uint32_t \<Rightarrow> double list \<Rightarrow> IGACreator \<Rightarrow> undefined_behaviour + (uint32_t \<times> IGACreator)" where
  "addExplicitPiece s_order pt coeffs c =
     (if 0x7FFF * 0x7FFF < length coeffs then Inr (INVALID_INDEX, c)
      else if sint s_order = 0 then Inl DivisionByZero
      else if sint s_order < 0 \<or> 0x7FFF < sint s_order \<or>
              int (length coeffs) sdiv sint s_order < 0 \<or>
              0x7FFF < int (length coeffs) sdiv sint s_order
      then Inr (INVALID_INDEX, c)
      else if nat (sint s_order) * nat (int (length coeffs) sdiv sint s_order) \<noteq> length coeffs
      then Inr (INVALID_INDEX, c)
      else case getDictionaryIndex coeffs c of
        (dict_index, c') \<Rightarrow>
          if dict_index = INVALID_INDEX then Inr (INVALID_INDEX, c')
          else Inr (addPiece
                      \<lparr>st_order = word_of_int (sint s_order)
                                   OR push_bit 16 (word_of_int (int (length coeffs) sdiv sint s_order)),
                       s_index = dict_index, maybe_t_index = INVALID_INDEX, pt_index = pt\<rparr> c'))"

text \<open>\<open>static_cast< int >\<close> of a size: its low 32 bits, read as a signed number.\<close>

definition addTensorPiece ::
  "double list \<Rightarrow> double list \<Rightarrow> uint32_t \<Rightarrow> IGACreator \<Rightarrow> uint32_t \<times> IGACreator" where
  "addTensorPiece s_coeffs t_coeffs pt c =
     (if sint (of_nat (length s_coeffs) :: int32_t) < 0 \<or>
         0x7FFF < sint (of_nat (length s_coeffs) :: int32_t) \<or>
         sint (of_nat (length t_coeffs) :: int32_t) < 0 \<or>
         0x7FFF < sint (of_nat (length t_coeffs) :: int32_t)
      then (INVALID_INDEX, c)
      else case getDictionaryIndex s_coeffs c of
        (s_dict_index, c1) \<Rightarrow>
          if s_dict_index = INVALID_INDEX then (INVALID_INDEX, c1)
          else case getDictionaryIndex t_coeffs c1 of
            (t_dict_index, c2) \<Rightarrow>
              if t_dict_index = INVALID_INDEX then (INVALID_INDEX, c2)
              else addPiece
                     \<lparr>st_order = of_nat (length s_coeffs) OR push_bit 16 (of_nat (length t_coeffs)),
                      s_index = s_dict_index, maybe_t_index = t_dict_index, pt_index = pt\<rparr> c2)"

text \<open>
  \<open>finishElem\<close>: the number of edges since the last element is a difference of sizes
  cut to 32 bits.
\<close>

definition finishElem :: "uint32_t \<Rightarrow> IGACreator \<Rightarrow> uint32_t \<times> IGACreator" where
  "finishElem index c =
     (if length (mLayouts (mParent c)) \<le> unat index then (INVALID_INDEX, c)
      else if (if mElems (mParent c) = [] then of_nat (length (mEdges (mParent c)))
               else of_nat (length (mEdges (mParent c)))
                    - edge_end_index (last (mElems (mParent c))))
              \<noteq> side_range (mLayouts (mParent c) ! unat index) 4
      then (INVALID_INDEX, c)
      else addElem \<lparr>piece_end_index = pieceCount (mParent c), layout_index = index,
                    edge_end_index = edgeCount (mParent c)\<rparr> c)"

definition setSurfaceType :: "uint8_t list \<Rightarrow> IGACreator \<Rightarrow> IGACreator" where
  "setSurfaceType surface_type c = c\<lparr>mParent := (mParent c)\<lparr>mSrfType := surface_type\<rparr>\<rparr>"

text \<open>
  The lookup table of the layouts as the builder keeps it: every entry gives the index
  at which its layout is stored.
\<close>

definition layout_lookup_ok :: "IGACreator \<Rightarrow> bool" where
  "layout_lookup_ok c =
     list_all (\<lambda>(l, i). unat i < length (mLayouts (mParent c)) \<and> mLayouts (mParent c) ! unat i = l)
       (mLayoutLookup c)"

text \<open>
  The layout dictionary as \<open>getLayoutIndex\<close> keeps it: every entry of the lookup table
  gives the index at which its layout is stored, and the first stored layout, if there
  is one, is the default layout.
\<close>

definition layout_dictionary_ok :: "IGACreator \<Rightarrow> bool" where
  "layout_dictionary_ok c =
     (list_all (\<lambda>(l, i). unat i < length (mLayouts (mParent c)) \<and> mLayouts (mParent c) ! unat i = l)
        (mLayoutLookup c) \<and>
      (mLayouts (mParent c) \<noteq> [] \<longrightarrow> mLayouts (mParent c) ! 0 = default_layout))"

text \<open>
  The builders: what the constructor and the public member functions of \<open>IGACreator\<close>
  produce, each from the builder before it (the builder alone changes its model).
\<close>

inductive built :: "IGACreator \<Rightarrow> bool" where
  constructed: "built (IGACreator_init parent)"
| raw_layout: "built c \<Longrightarrow> built (snd (addLayout l c))"
| coeffs: "built c \<Longrightarrow> built (snd (addCoeffs v c))"
| dictionary_index: "built c \<Longrightarrow> built (snd (getDictionaryIndex v c))"
| layout_index: "built c \<Longrightarrow> built (snd (getLayoutIndex l c))"
| piece: "built c \<Longrightarrow> built (snd (addPiece p c))"
| point: "built c \<Longrightarrow> built (snd (addPoint pt c))"
| element: "built c \<Longrightarrow> built (snd (addElem e c))"
| edge: "built c \<Longrightarrow> built (snd (addEdge other knot_interval c))"
| finished: "built c \<Longrightarrow> built (snd (finishElem index c))"
| tensor_piece: "built c \<Longrightarrow> built (snd (addTensorPiece s_coeffs t_coeffs pt c))"
| surface_type: "built c \<Longrightarrow> built (setSurfaceType surface_type c)"
| explicit_piece: "built c \<Longrightarrow> addExplicitPiece s_order pt v c = Inr (i, c') \<Longrightarrow> built c'"

section \<open>The container format\<close>

subsection \<open>Vectors of fixed-layout structs as bytes\<close>

text \<open>
  \<open>reinterpret_cast< const char * >( v.data() )\<close> with \<open>v.size() * sizeof( T )\<close> bytes:
  the structs one after the other, each as the bytes of its fields in declaration
  order (none of the structs has padding). Reading fills \<open>n\<close> structs of \<open>elem_size\<close>
  bytes each from the bytes read.
\<close>

definition dec_char :: "uint8_t list \<Rightarrow> uint8_t" where
  "dec_char bs = bs ! 0"

definition enc_char :: "uint8_t \<Rightarrow> uint8_t list" where
  "enc_char c = [c]"

definition enc_Point3d :: "Point3d \<Rightarrow> uint8_t list" where
  "enc_Point3d pt = le_bytes 8 (pt_x pt) @ le_bytes 8 (pt_y pt) @ le_bytes 8 (pt_z pt)
                    @ le_bytes 8 (pt_w pt)"

definition dec_Point3d :: "uint8_t list \<Rightarrow> Point3d" where
  "dec_Point3d bs =
     \<lparr>pt_x = le_word (take 8 bs), pt_y = le_word (take 8 (drop 8 bs)),
      pt_z = le_word (take 8 (drop 16 bs)), pt_w = le_word (take 8 (drop 24 bs))\<rparr>"

definition enc_Piece2D :: "Piece2D \<Rightarrow> uint8_t list" where
  "enc_Piece2D piece = le_bytes 4 (st_order piece) @ le_bytes 4 (s_index piece)
                       @ le_bytes 4 (maybe_t_index piece) @ le_bytes 4 (pt_index piece)"

definition dec_Piece2D :: "uint8_t list \<Rightarrow> Piece2D" where
  "dec_Piece2D bs =
     \<lparr>st_order = le_word (take 4 bs), s_index = le_word (take 4 (drop 4 bs)),
      maybe_t_index = le_word (take 4 (drop 8 bs)), pt_index = le_word (take 4 (drop 12 bs))\<rparr>"

definition enc_FaceLayout :: "FaceLayout \<Rightarrow> uint8_t list" where
  "enc_FaceLayout l = concat (map (le_bytes 4) (side_ranges l))"

definition dec_FaceLayout :: "uint8_t list \<Rightarrow> FaceLayout" where
  "dec_FaceLayout bs =
     FaceLayout (le_word (take 4 bs)) (le_word (take 4 (drop 4 bs))) (le_word (take 4 (drop 8 bs)))
       (le_word (take 4 (drop 12 bs))) (le_word (take 4 (drop 16 bs)))"

definition enc_Elem :: "Elem \<Rightarrow> uint8_t list" where
  "enc_Elem elem = le_bytes 4 (piece_end_index elem) @ le_bytes 4 (layout_index elem)
                   @ le_bytes 4 (edge_end_index elem)"

definition dec_Elem :: "uint8_t list \<Rightarrow> Elem" where
  "dec_Elem bs =
     \<lparr>piece_end_index = le_word (take 4 bs), layout_index = le_word (take 4 (drop 4 bs)),
      edge_end_index = le_word (take 4 (drop 8 bs))\<rparr>"

definition vector_bytes :: "('a \<Rightarrow> uint8_t list) \<Rightarrow> 'a list \<Rightarrow> uint8_t list" where
  "vector_bytes enc vec = concat (map enc vec)"

definition vector_of_bytes :: "nat \<Rightarrow> (uint8_t list \<Rightarrow> 'a) \<Rightarrow> nat \<Rightarrow> uint8_t list \<Rightarrow> 'a list" where
  "vector_of_bytes elem_size dec n bs =
     map (\<lambda>i. dec (take elem_size (drop (i * elem_size) bs))) [0..<n]"

text \<open>The eight bytes \<open>"\nBLOCK:\n"\<close> that start a block.\<close>

definition BLOCK_marker :: "uint8_t list" where
  "BLOCK_marker = 0x0A # cstr ''BLOCK:'' @ [0x0A]"

subsection \<open>IGAWriter\<close>

text \<open>
  \<open>writeData\<close> is pure virtual: the writer is given the sink's \<open>writeData\<close>, which
  returns the sink after the write, or \<open>None\<close> for \<open>false\<close>. \<open>writeFinished\<close> does
  nothing by default.
\<close>

definition writeBlock ::
  "('s \<Rightarrow> uint8_t list \<Rightarrow> 's option) \<Rightarrow> uint8_t list \<Rightarrow> uint8_t list \<Rightarrow> uint64_t \<Rightarrow> 's \<Rightarrow> 's option" where
  "writeBlock writeData block_type contents ident s =
     Option.bind (writeData s BLOCK_marker) (\<lambda>s.
     Option.bind (writeData s (le_bytes 8 (tagValue block_type))) (\<lambda>s.
     Option.bind (writeData s (le_bytes 8 ident)) (\<lambda>s.
     Option.bind (writeData s (le_bytes 8 (of_nat (length contents) :: uint64_t))) (\<lambda>s.
     Option.bind (writeData s contents) (\<lambda>s.
     writeData s (le_bytes 8 (of_nat (length contents) :: uint64_t)))))))"

definition writeIGAFile ::
  "('s \<Rightarrow> uint8_t list \<Rightarrow> 's option) \<Rightarrow> IGAData \<Rightarrow> 's \<Rightarrow> 's option" where
  "writeIGAFile writeData geometry s =
     Option.bind (writeData s (cstr ''#TSS0001'')) (\<lambda>s.
     Option.bind (writeBlock writeData (cstr ''IGAFILE'') [] 0 s) (\<lambda>s.
     Option.bind (writeBlock writeData (cstr ''SRFTYPE'')
                    (vector_bytes enc_char (mSrfType geometry)) 0 s) (\<lambda>s.
     Option.bind (writeBlock writeData (cstr ''VECDICT'')
                    (vector_bytes (le_bytes 8) (mCoeffs geometry)) 0 s) (\<lambda>s.
     Option.bind (writeBlock writeData (cstr ''PT3DW'')
                    (vector_bytes enc_Point3d (mPoints geometry)) 0 s) (\<lambda>s.
     Option.bind (writeBlock writeData (cstr ''2DPIECE'')
                    (vector_bytes enc_Piece2D (mPieces geometry)) 0 s) (\<lambda>s.
     Option.bind (writeBlock writeData (cstr ''LAYOUT'')
                    (vector_bytes enc_FaceLayout (mLayouts geometry)) 0 s) (\<lambda>s.
     Option.bind (writeBlock writeData (cstr ''EDGES'')
                    (vector_bytes (le_bytes 4) (mEdges geometry)) 0 s) (\<lambda>s.
     Option.bind (if 0 < length (mIntervals geometry)
                  then writeBlock writeData (cstr ''KNOTINT'')
                         (vector_bytes (le_bytes 8) (mIntervals geometry)) 0 s
                  else Some s) (\<lambda>s.
     writeBlock writeData (cstr ''SHAPE'')
       (vector_bytes enc_Elem (mElems geometry)) 0 s)))))))))"

text \<open>A sink that keeps the bytes written, as the \<open>std::stringstream\<close> of the test program.\<close>

definition buffer_writeData :: "uint8_t list \<Rightarrow> uint8_t list \<Rightarrow> uint8_t list option" where
  "buffer_writeData s data_block = Some (s @ data_block)"

subsection \<open>IGAReader\<close>

text \<open>
  The source is the sequence of bytes not yet read. \<open>readData\<close> returns the bytes asked
  for and the rest, or \<open>None\<close> (\<open>false\<close>) when fewer are left.
\<close>

definition readData :: "uint8_t list \<Rightarrow> nat \<Rightarrow> (uint8_t list \<times> uint8_t list) option" where
  "readData src len = (if len \<le> length src then Some (take len src, drop len src) else None)"

text \<open>
  \<open>readBlock< T >\<close>, given \<open>sizeof( T )\<close> and the layout of \<open>T\<close>: the vector and the rest
  of the source, or \<open>None\<close> for \<open>false\<close>.
\<close>

definition readBlock ::
  "nat \<Rightarrow> (uint8_t list \<Rightarrow> 'a) \<Rightarrow> 'a list \<Rightarrow> uint64_t \<Rightarrow> uint8_t list \<Rightarrow> ('a list \<times> uint8_t list) option" where
  "readBlock elem_size dec dst len src =
     (if unat len mod elem_size \<noteq> 0 then None
      else Option.bind
             (if len \<noteq> 0
              then (if IGA_MAX_ALLOC \<le> unat len then None
                    else Option.bind (readData src (unat len)) (\<lambda>(bytes, src).
                         Some (vector_of_bytes elem_size dec (unat len div elem_size) bytes, src)))
              else Some (dst, src))
             (\<lambda>(dst, src).
                Option.bind (readData src 8) (\<lambda>(final_len, src).
                if le_word final_len \<noteq> len then None else Some (dst, src))))"

record BlockHeader =
  block_tag :: "uint8_t list"
  tag :: uint64_t
  block_id :: uint64_t
  block_len :: uint64_t

definition dec_BlockHeader :: "uint8_t list \<Rightarrow> BlockHeader" where
  "dec_BlockHeader bs =
     \<lparr>block_tag = take 8 bs, tag = le_word (take 8 (drop 8 bs)),
      block_id = le_word (take 8 (drop 16 bs)), block_len = le_word (take 8 (drop 24 bs))\<rparr>"

text \<open>
  The magic and the first block. \<open>strcmp\<close> finds the eight bytes read equal to
  \<open>"#TSS0001"\<close> exactly when they are these eight characters.
\<close>

definition read_first_block :: "uint8_t list \<Rightarrow> uint8_t list option" where
  "read_first_block src =
     Option.bind (readData src 8) (\<lambda>(buf, src).
     if buf \<noteq> cstr ''#TSS0001'' then None
     else Option.bind (readData src 32) (\<lambda>(header_bytes, src).
       if tagValue (block_tag (dec_BlockHeader header_bytes)) \<noteq> tagValue BLOCK_marker then None
       else if tag (dec_BlockHeader header_bytes) \<noteq> tagValue (cstr ''IGAFILE'') then None
       else map_option snd
              (readBlock 1 dec_char [] (block_len (dec_BlockHeader header_bytes)) src)))"

text \<open>
  One turn of the loop after its header has been read: the geometry and the rest of the
  source, or \<open>None\<close> for \<open>return false\<close>. What \<open>unused_block\<close> holds is never used.
\<close>

definition read_next_block ::
  "IGAData \<Rightarrow> BlockHeader \<Rightarrow> uint8_t list \<Rightarrow> (IGAData \<times> uint8_t list) option" where
  "read_next_block geometry block_header src =
     (if tagValue (block_tag block_header) \<noteq> tagValue BLOCK_marker then None
      else if tag block_header = tagValue (cstr ''SRFTYPE'')
      then map_option (\<lambda>(srf_type, src). ((clear geometry)\<lparr>mSrfType := srf_type\<rparr>, src))
             (readBlock 1 dec_char [] (block_len block_header) src)
      else if tag block_header = tagValue (cstr ''VECDICT'')
      then map_option (\<lambda>(v, src). (geometry\<lparr>mCoeffs := v\<rparr>, src))
             (readBlock 8 le_word (mCoeffs geometry) (block_len block_header) src)
      else if tag block_header = tagValue (cstr ''PT3DW'')
      then map_option (\<lambda>(v, src). (geometry\<lparr>mPoints := v\<rparr>, src))
             (readBlock 32 dec_Point3d (mPoints geometry) (block_len block_header) src)
      else if tag block_header = tagValue (cstr ''2DPIECE'')
      then map_option (\<lambda>(v, src). (geometry\<lparr>mPieces := v\<rparr>, src))
             (readBlock 16 dec_Piece2D (mPieces geometry) (block_len block_header) src)
      else if tag block_header = tagValue (cstr ''LAYOUT'')
      then map_option (\<lambda>(v, src). (geometry\<lparr>mLayouts := v\<rparr>, src))
             (readBlock 20 dec_FaceLayout (mLayouts geometry) (block_len block_header) src)
      else if tag block_header = tagValue (cstr ''EDGES'')
      then map_option (\<lambda>(v, src). (geometry\<lparr>mEdges := v\<rparr>, src))
             (readBlock 4 le_word (mEdges geometry) (block_len block_header) src)
      else if tag block_header = tagValue (cstr ''KNOTINT'')
      then map_option (\<lambda>(v, src). (geometry\<lparr>mIntervals := v\<rparr>, src))
             (readBlock 8 le_word (mIntervals geometry) (block_len block_header) src)
      else if tag block_header = tagValue (cstr ''SHAPE'')
      then map_option (\<lambda>(v, src). (geometry\<lparr>mElems := v\<rparr>, src))
             (readBlock 12 dec_Elem (mElems geometry) (block_len block_header) src)
      else map_option (\<lambda>(unused_block, src). (geometry, src))
             (readBlock 1 dec_char [] (block_len block_header) src))"

text \<open>
  The \<open>do \<dots> while\<close> loop. A header that cannot be read in full ends it, and the
  function then returns \<open>true\<close> with the geometry read so far.
\<close>

function read_blocks :: "IGAData \<Rightarrow> uint8_t list \<Rightarrow> IGAData option" where
  "read_blocks geometry src =
     (case readData src 32 of
        None \<Rightarrow> Some geometry
      | Some (header_bytes, src1) \<Rightarrow>
          (case read_next_block geometry (dec_BlockHeader header_bytes) src1 of
             None \<Rightarrow> None
           | Some (geometry', src2) \<Rightarrow> read_blocks geometry' src2))"
  by pat_completeness auto
termination
proof (relation "measure (\<lambda>(geometry, src). length src)")
  show "wf (measure (\<lambda>(geometry, src). length src))"
    by simp
next
  fix geometry :: IGAData and src x2 header_bytes src1 x2a geometry' src2
  assume hdr: "readData src 32 = Some x2" "(header_bytes, src1) = x2"
    and blk: "read_next_block geometry (dec_BlockHeader header_bytes) src1 = Some x2a"
             "(geometry', src2) = x2a"
  have shrink: "length r \<le> length s"
    if "readBlock n d v l s = Some (v', r)" for n l s r
      and d :: "uint8_t list \<Rightarrow> 'b" and v v' :: "'b list"
    using that
    by (auto simp add: readBlock_def readData_def Option.bind_eq_Some_conv split: if_splits)
  from hdr have "length src1 + 32 \<le> length src"
    by (auto simp add: readData_def split: if_splits)
  moreover from blk have "length src2 \<le> length src1"
    by (auto simp add: read_next_block_def split: if_splits dest: shrink)
  ultimately show "((geometry', src2), (geometry, src)) \<in> measure (\<lambda>(geometry, src). length src)"
    by simp
qed

definition readIGAFile :: "IGAData \<Rightarrow> uint8_t list \<Rightarrow> IGAData option" where
  "readIGAFile geometry src =
     (case read_first_block src of
        None \<Rightarrow> None
      | Some src \<Rightarrow> read_blocks (clear geometry) src)"

text \<open>
  The bytes of one block with id 0, as \<open>writeBlock\<close> writes them, and the models all of
  whose blocks stay below the allocation limit of the reader.
\<close>

definition block_bytes :: "uint8_t list \<Rightarrow> uint8_t list \<Rightarrow> uint8_t list" where
  "block_bytes block_type contents =
     BLOCK_marker @ le_bytes 8 (tagValue block_type) @ le_bytes 8 (0 :: uint64_t)
     @ le_bytes 8 (of_nat (length contents) :: uint64_t) @ contents
     @ le_bytes 8 (of_nat (length contents) :: uint64_t)"

definition fits_IGA_MAX_ALLOC :: "IGAData \<Rightarrow> bool" where
  "fits_IGA_MAX_ALLOC geometry =
     (length (mSrfType geometry) < IGA_MAX_ALLOC \<and>
      length (mCoeffs geometry) * 8 < IGA_MAX_ALLOC \<and>
      length (mPoints geometry) * 32 < IGA_MAX_ALLOC \<and>
      length (mPieces geometry) * 16 < IGA_MAX_ALLOC \<and>
      length (mLayouts geometry) * 20 < IGA_MAX_ALLOC \<and>
      length (mEdges geometry) * 4 < IGA_MAX_ALLOC \<and>
      length (mIntervals geometry) * 8 < IGA_MAX_ALLOC \<and>
      length (mElems geometry) * 12 < IGA_MAX_ALLOC)"

text \<open>Writing a model to a buffer and reading the buffer back into \<open>destination\<close>.\<close>

definition write_then_read :: "IGAData \<Rightarrow> IGAData \<Rightarrow> IGAData option" where
  "write_then_read geometry destination =
     Option.bind (writeIGAFile buffer_writeData geometry []) (readIGAFile destination)"

text \<open>
  The first \<open>n\<close> turns of the loop: each reads one header in full and the block behind
  it. The result is the geometry and the source after them, or \<open>None\<close> when the loop
  ends or fails before.
\<close>

fun read_n_blocks :: "nat \<Rightarrow> IGAData \<Rightarrow> uint8_t list \<Rightarrow> (IGAData \<times> uint8_t list) option" where
  "read_n_blocks 0 geometry src = Some (geometry, src)"
| "read_n_blocks (Suc n) geometry src =
     (case readData src 32 of
        None \<Rightarrow> None
      | Some (header_bytes, src1) \<Rightarrow>
          (case read_next_block geometry (dec_BlockHeader header_bytes) src1 of
             None \<Rightarrow> None
           | Some (geometry', src2) \<Rightarrow> read_n_blocks n geometry' src2))"

section \<open>Bytes and words\<close>

lemma le_word_Nil: "le_word [] = 0"
  by (simp add: le_word_def)

lemma le_word_Cons: "le_word (b # bs) = ucast b OR push_bit 8 (le_word bs)"
  by (simp add: le_word_def)

lemma le_bytes_0: "le_bytes 0 w = []"
  by (simp add: le_bytes_def)

lemma le_bytes_Suc: "le_bytes (Suc n) w = ucast w # le_bytes n (drop_bit 8 w)"
  by (simp add: le_bytes_def upt_conv_Cons map_Suc_upt[symmetric] drop_bit_drop_bit
        add.commute del: upt_Suc)

lemma length_le_bytes: "length (le_bytes n w) = n"
  by (simp add: le_bytes_def)

lemma low_byte_and_rest:
  "ucast (ucast w :: uint8_t) OR push_bit 8 (drop_bit 8 w) = (w :: 'a::len word)"
proof (rule bit_word_eqI)
  fix n assume n: "n < LENGTH('a)"
  show "bit (ucast (ucast w :: uint8_t) OR push_bit 8 (drop_bit 8 w)) n = bit w n"
  proof (cases "n < 8")
    case True
    with n show ?thesis by (auto simp add: bit_simps)
  next
    case False
    then have "8 + (n - 8) = n" by simp
    with False n show ?thesis by (auto simp add: bit_simps)
  qed
qed

lemma le_word_le_bytes: "le_word (le_bytes n w) = take_bit (8 * n) (w :: 'a::len word)"
proof (induction n arbitrary: w)
  case 0
  show ?case by (simp add: le_bytes_0 le_word_Nil)
next
  case (Suc n)
  show ?case
    apply (simp add: le_bytes_Suc le_word_Cons Suc.IH)
    apply (rule bit_word_eqI)
    apply (auto simp add: bit_simps)
    done
qed

lemma le_word_le_bytes_32: "le_word (le_bytes 4 w) = (w :: uint32_t)"
  by (simp add: le_word_le_bytes take_bit_word_eq_self)

lemma le_word_le_bytes_64: "le_word (le_bytes 8 w) = (w :: uint64_t)"
  by (simp add: le_word_le_bytes take_bit_word_eq_self)

section \<open>tagValue\<close>

declare tag_pad.simps [simp del]

lemma tag_copy_fill:
  "length pre + length post = 8 \<Longrightarrow>
   tag_copy s (pre @ post) (length pre) (length pre) =
     (pre @ take (length post) (takeWhile (\<lambda>c. c \<noteq> 0) s)
          @ drop (length (take (length post) (takeWhile (\<lambda>c. c \<noteq> 0) s))) post,
      length pre + length (take (length post) (takeWhile (\<lambda>c. c \<noteq> 0) s)),
      length pre + length (take (length post) (takeWhile (\<lambda>c. c \<noteq> 0) s)))"
proof (induction s arbitrary: pre post)
  case Nil
  then show ?case by simp
next
  case (Cons c s)
  show ?case
  proof (cases "c \<noteq> 0 \<and> length pre < 8")
    case False
    show ?thesis
    proof (cases "c = 0")
      case True
      then show ?thesis by simp
    next
      case nz: False
      with False Cons.prems have "length post = 0" by linarith
      then have "post = []" by simp
      with nz False show ?thesis by simp
    qed
  next
    case True
    with Cons.prems obtain x post' where post: "post = x # post'"
      by (cases post) auto
    have upd: "(pre @ post)[length pre := c] = (pre @ [c]) @ post'"
      by (simp add: post)
    have len: "length (pre @ [c]) + length post' = 8"
      using Cons.prems post by simp
    have step: "tag_copy (c # s) (pre @ post) (length pre) (length pre) =
      tag_copy s ((pre @ [c]) @ post') (length (pre @ [c])) (length (pre @ [c]))"
      using True by (simp add: upd del: append_assoc append.simps)
    show ?thesis
      unfolding step Cons.IH [OF len]
      using True by (simp add: post)
  qed
qed

lemma tag_pad_fill:
  "length pre + length post = 8 \<Longrightarrow>
   tag_pad (pre @ post) (length pre) (length pre) =
     pre @ (if post = [] then [] else replicate (length post - 1) 0x2D @ [0x0A])"
proof (induction post arbitrary: pre)
  case Nil
  then show ?case by (simp add: tag_pad.simps)
next
  case (Cons x post')
  show ?case
  proof (cases "length pre = 7")
    case True
    with Cons.prems have "post' = []" by simp
    moreover have "tag_pad (pre @ [x]) (length pre) (length pre) =
        tag_pad ((pre @ [x])[length pre := 0x0A]) (length pre) (Suc (length pre))"
      using True by (subst tag_pad.simps) simp
    moreover have "tag_pad ((pre @ [x])[length pre := 0x0A]) (length pre) (Suc (length pre)) =
        (pre @ [x])[length pre := 0x0A]"
      using True by (subst tag_pad.simps) simp
    ultimately show ?thesis by simp
  next
    case False
    with Cons.prems have ne: "post' \<noteq> []" by auto
    have len: "length (pre @ [0x2D]) + length post' = 8"
      using Cons.prems by simp
    have "tag_pad (pre @ x # post') (length pre) (length pre) =
          tag_pad ((pre @ [0x2D]) @ post') (length (pre @ [0x2D])) (length (pre @ [0x2D]))"
      using False Cons.prems by (subst tag_pad.simps) simp
    also have "\<dots> = (pre @ [0x2D]) @ replicate (length post' - 1) 0x2D @ [0x0A]"
      using Cons.IH [OF len] ne by simp
    finally show ?thesis
      using ne by (cases post') (simp_all add: replicate_append_same)
  qed
qed

lemma tagValue_le_word:
  "tagValue s =
     le_word (if length (takeWhile (\<lambda>c. c \<noteq> 0) s) < 8
              then takeWhile (\<lambda>c. c \<noteq> 0) s
                   @ replicate (7 - length (takeWhile (\<lambda>c. c \<noteq> 0) s)) 0x2D @ [0x0A]
              else take 8 (takeWhile (\<lambda>c. c \<noteq> 0) s))"
proof -
  let ?cs = "take 8 (takeWhile (\<lambda>c. c \<noteq> 0) s)"
  have copy: "tag_copy s (replicate 8 0) 0 0 =
      (?cs @ replicate (8 - length ?cs) 0, length ?cs, length ?cs)"
    using tag_copy_fill [of "[]" "replicate 8 0" s] by simp
  have pad: "tag_pad (?cs @ replicate (8 - length ?cs) 0) (length ?cs) (length ?cs) =
      ?cs @ (if replicate (8 - length ?cs) (0::uint8_t) = [] then []
             else replicate (length (replicate (8 - length ?cs) (0::uint8_t)) - 1) 0x2D @ [0x0A])"
    by (rule tag_pad_fill) simp
  show ?thesis
    unfolding tagValue_def copy prod.case pad
    by (auto simp add: min_def)
qed

text \<open>
  C9. For a null-terminated text of \<open>n\<close> non-null characters \<open>cs\<close> (whatever follows the
  terminator in memory), \<open>tagValue\<close> returns, when \<open>n < 8\<close>, the 64-bit word whose bytes,
  least significant first, are \<open>cs\<close>, then hyphens (0x2D) up to byte 6, then a newline
  (0x0A) as byte 7; when \<open>n \<ge> 8\<close> it returns the word made of the first eight characters.
  \<open>tagValue\<close> is a total function with a plain word as result: every text is accepted
  and there is no error path.
\<close>

theorem tagValue_pads_or_truncates:
  "0 \<notin> set cs \<Longrightarrow>
   tagValue (cs @ 0 # rest) =
     (if length cs < 8 then le_word (cs @ replicate (7 - length cs) 0x2D @ [0x0A])
      else le_word (take 8 cs))"
proof -
  assume "0 \<notin> set cs"
  then have "\<And>c. c \<in> set cs \<Longrightarrow> c \<noteq> 0"
    by auto
  then have "takeWhile (\<lambda>c. c \<noteq> 0) (cs @ 0 # rest) = cs"
    by (simp add: takeWhile_append2)
  then show ?thesis
    by (simp add: tagValue_le_word)
qed

theorem tagValue_pads_or_truncates_witness:
  "0 \<notin> set (cstr ''EDGES'') \<and> 0 \<notin> set (cstr ''2DPIECE+extra'') \<and>
   tagValue (cstr ''EDGES'' @ 0 # []) = le_word (cstr ''EDGES--'' @ [0x0A]) \<and>
   tagValue (cstr ''2DPIECE+extra'' @ 0 # []) = le_word (cstr ''2DPIECE+'')"
proof -
  have r: "replicate 2 (0x2D :: uint8_t) = [0x2D, 0x2D]"
    by (simp add: numeral_2_eq_2)
  have a: "0 \<notin> set (cstr ''EDGES'')" and b: "0 \<notin> set (cstr ''2DPIECE+extra'')"
    by (simp_all add: cstr_def)
  show ?thesis
    using a b tagValue_pads_or_truncates [OF a, of "[]"] tagValue_pads_or_truncates [OF b, of "[]"]
    by (simp add: cstr_def r)
qed

section \<open>Accessors\<close>

text \<open>
  C6. In a model whose interval array is empty, \<open>edgeInterval\<close> returns exactly 1.0
  (the double with bit pattern 0x3FF0000000000000) for every edge index.
\<close>

theorem edgeInterval_uniform:
  "mIntervals g = [] \<Longrightarrow> edgeInterval g edge_index = Some d_one"
  by (simp add: edgeInterval_def)

theorem edgeInterval_uniform_witness:
  "mIntervals IGAData_init = [] \<and> edgeInterval IGAData_init 5 = Some 0x3FF0000000000000"
  using edgeInterval_uniform [of IGAData_init 5] by (simp add: IGAData_init_def d_one_def)

text \<open>
  C10. For an element index at or beyond the element count, \<open>edgeBegin\<close> and \<open>edgeEnd\<close>
  both return \<open>INVALID_INDEX\<close> and index no element; for element 0 of a non-empty
  element array, \<open>edgeBegin\<close> returns 0.
\<close>

theorem edgeBegin_edgeEnd_out_of_range:
  "(length (mElems g) \<le> unat elem_index \<longrightarrow>
      edgeBegin g elem_index = INVALID_INDEX \<and> edgeEnd g elem_index = INVALID_INDEX) \<and>
   (mElems g \<noteq> [] \<longrightarrow> edgeBegin g 0 = 0)"
  by (simp add: edgeBegin_def edgeEnd_def)

theorem edgeBegin_edgeEnd_out_of_range_witness:
  "edgeBegin (IGAData_init\<lparr>mElems := [\<lparr>piece_end_index = 0, layout_index = 0, edge_end_index = 4\<rparr>]\<rparr>) 1
     = 0xFFFFFFFF \<and>
   edgeEnd (IGAData_init\<lparr>mElems := [\<lparr>piece_end_index = 0, layout_index = 0, edge_end_index = 4\<rparr>]\<rparr>) 1
     = 0xFFFFFFFF \<and>
   edgeBegin (IGAData_init\<lparr>mElems := [\<lparr>piece_end_index = 0, layout_index = 0, edge_end_index = 4\<rparr>]\<rparr>) 0
     = 0"
  using edgeBegin_edgeEnd_out_of_range
    [of "IGAData_init\<lparr>mElems := [\<lparr>piece_end_index = 0, layout_index = 0, edge_end_index = 4\<rparr>]\<rparr>" 1]
  by (simp add: INVALID_INDEX_def)

section \<open>The builder\<close>

subsection \<open>Indices and the lookup tables\<close>

lemma d_less_irrefl: "\<not> d_less a a"
  by (simp add: d_less_def)

lemma lexicographical_compare_irrefl:
  "(\<And>a. \<not> lt a a) \<Longrightarrow> \<not> lexicographical_compare lt xs xs"
  by (induction xs) simp_all

lemma CoeffVectorLessThan_irrefl: "\<not> CoeffVectorLessThan v v"
  by (simp add: CoeffVectorLessThan_def lexicographical_compare_irrefl d_less_irrefl)

lemma map_find_assign_new:
  "\<not> lt k k \<Longrightarrow> map_find lt k m = None \<Longrightarrow> map_find lt k (map_assign lt k v m) = Some v"
  by (induction m) (auto split: if_splits)

lemma of_nat_neq_INVALID_INDEX: "n < 4294967295 \<Longrightarrow> (of_nat n :: uint32_t) \<noteq> INVALID_INDEX"
proof
  assume n: "n < 4294967295" and eq: "(of_nat n :: uint32_t) = INVALID_INDEX"
  from n have "unat (of_nat n :: uint32_t) = n"
    by (simp add: unat_of_nat)
  with eq n show False
    by (simp add: INVALID_INDEX_def)
qed

lemma addCoeffs_INVALID:
  "addCoeffs v c = (i, c') \<Longrightarrow> i = INVALID_INDEX \<Longrightarrow> c' = c"
proof -
  assume r: "addCoeffs v c = (i, c')" and i: "i = INVALID_INDEX"
  show ?thesis
  proof (cases "unat INVALID_INDEX \<le> length (mCoeffs (mParent c)) + length v \<or>
         max_size 8 < length (mCoeffs (mParent c)) + length v \<or> 0x7FFF \<le> length v")
    case True
    with r show ?thesis by (simp add: addCoeffs_def)
  next
    case False
    then have "length (mCoeffs (mParent c)) < 4294967295"
      by (simp add: INVALID_INDEX_def)
    then have "(of_nat (length (mCoeffs (mParent c))) :: uint32_t) \<noteq> INVALID_INDEX"
      by (rule of_nat_neq_INVALID_INDEX)
    with False r i show ?thesis by (simp add: addCoeffs_def)
  qed
qed

lemma addCoeffs_lookup:
  "addCoeffs v c = (i, c') \<Longrightarrow> mCoeffLookup c' = mCoeffLookup c"
  by (auto simp add: addCoeffs_def split: if_splits)

lemma unat_of_nat_index: "n < 4294967295 \<Longrightarrow> unat (of_nat n :: uint32_t) = n"
  by (simp add: unat_of_nat)

lemma safeAppend_cases:
  "safeAppend sz vec v = (i, vec') \<Longrightarrow>
   (i = INVALID_INDEX \<and> vec' = vec) \<or>
   (i \<noteq> INVALID_INDEX \<and> vec' = vec @ [v] \<and> unat i = length vec \<and> length vec < 4294967294)"
proof -
  assume r: "safeAppend sz vec v = (i, vec')"
  show ?thesis
  proof (cases "unat (INVALID_INDEX - 1) \<le> length vec \<or> max_size sz \<le> length vec")
    case True
    with r show ?thesis by (simp add: safeAppend_def)
  next
    case False
    then have len: "length vec < 4294967294"
      by (simp add: INVALID_INDEX_def)
    then have "(of_nat (length vec) :: uint32_t) \<noteq> INVALID_INDEX"
      and "unat (of_nat (length vec) :: uint32_t) = length vec"
      by (simp_all add: of_nat_neq_INVALID_INDEX unat_of_nat_index)
    with False r len show ?thesis by (auto simp add: safeAppend_def)
  qed
qed


subsection \<open>getDictionaryIndex\<close>

text \<open>
  C3. For every coefficient vector (of finite values or not) and every builder, a second
  call of \<open>getDictionaryIndex\<close> with the same vector returns the index that the first
  call returned and leaves the builder as the first call left it: the coefficient
  dictionary, the rest of the model and the lookup tables are unchanged.
\<close>

theorem getDictionaryIndex_twice:
  "getDictionaryIndex v c = (i, c') \<Longrightarrow> getDictionaryIndex v c' = (i, c')"
proof -
  assume first: "getDictionaryIndex v c = (i, c')"
  show ?thesis
  proof (cases "list_ex (\<lambda>i. \<not> finite_d i) v")
    case True
    with first show ?thesis by (simp add: getDictionaryIndex_def)
  next
    case fin: False
    show ?thesis
    proof (cases "map_find CoeffVectorLessThan v (mCoeffLookup c)")
      case (Some found)
      with fin first show ?thesis by (auto simp add: getDictionaryIndex_def)
    next
      case None
      obtain n c1 where add: "addCoeffs v c = (n, c1)"
        by (cases "addCoeffs v c")
      show ?thesis
      proof (cases "n = INVALID_INDEX")
        case True
        with add have "c1 = c" by (simp add: addCoeffs_INVALID)
        with True add fin None first show ?thesis
          by (auto simp add: getDictionaryIndex_def)
      next
        case False
        from add have lk: "mCoeffLookup c1 = mCoeffLookup c"
          by (rule addCoeffs_lookup)
        from False add fin None first
        have res: "i = n" "c' = c1\<lparr>mCoeffLookup := map_assign CoeffVectorLessThan v n (mCoeffLookup c1)\<rparr>"
          by (auto simp add: getDictionaryIndex_def)
        have "map_find CoeffVectorLessThan v (mCoeffLookup c') = Some n"
          using None by (simp add: res lk map_find_assign_new CoeffVectorLessThan_irrefl)
        with fin res show ?thesis
          by (simp add: getDictionaryIndex_def)
      qed
    qed
  qed
qed

theorem getDictionaryIndex_twice_witness:
  "getDictionaryIndex [d_one, d_zero] (IGACreator_init IGAData_init) =
     (0, \<lparr>mParent = IGAData_init\<lparr>mCoeffs := [d_one, d_zero]\<rparr>,
          mCoeffLookup = [([d_one, d_zero], 0)], mLayoutLookup = []\<rparr>) \<and>
   getDictionaryIndex [d_one, d_zero]
     \<lparr>mParent = IGAData_init\<lparr>mCoeffs := [d_one, d_zero]\<rparr>,
      mCoeffLookup = [([d_one, d_zero], 0)], mLayoutLookup = []\<rparr> =
     (0, \<lparr>mParent = IGAData_init\<lparr>mCoeffs := [d_one, d_zero]\<rparr>,
          mCoeffLookup = [([d_one, d_zero], 0)], mLayoutLookup = []\<rparr>)"
proof -
  have first: "getDictionaryIndex [d_one, d_zero] (IGACreator_init IGAData_init) =
     (0, \<lparr>mParent = IGAData_init\<lparr>mCoeffs := [d_one, d_zero]\<rparr>,
          mCoeffLookup = [([d_one, d_zero], 0)], mLayoutLookup = []\<rparr>)"
    by (simp add: getDictionaryIndex_def IGACreator_init_def IGAData_init_def clear_def addCoeffs_def
          d_one_def d_zero_def finite_d_def d_exponent_def INVALID_INDEX_def max_size_def)
  from getDictionaryIndex_twice [OF first] first show ?thesis
    by simp
qed

subsection \<open>addEdge\<close>






subsection \<open>addExplicitPiece\<close>

lemma addExplicitPiece_zero_order:
  "length coeffs \<le> 0x7FFF * 0x7FFF \<Longrightarrow> addExplicitPiece 0 pt coeffs c = Inl DivisionByZero"
  by (simp add: addExplicitPiece_def)

lemma addExplicitPiece_rejects:
  "sint s_order \<noteq> 0 \<Longrightarrow>
   0x7FFF * 0x7FFF < length coeffs \<or> sint s_order < 0 \<or> 0x7FFF < sint s_order \<or>
   int (length coeffs) sdiv sint s_order < 0 \<or> 0x7FFF < int (length coeffs) sdiv sint s_order \<or>
   nat (sint s_order) * nat (int (length coeffs) sdiv sint s_order) \<noteq> length coeffs \<Longrightarrow>
   addExplicitPiece s_order pt coeffs c = Inr (INVALID_INDEX, c)"
  by (auto simp add: addExplicitPiece_def)

text \<open>
  C4. \<open>addExplicitPiece\<close> divides the number of coefficients by \<open>s_order\<close> before it
  checks \<open>s_order\<close>: with \<open>s_order = 0\<close> (here with no coefficients, on a new builder)
  the call is an integer division by zero and returns nothing. For every other
  \<open>s_order\<close> the call returns \<open>INVALID_INDEX\<close> and leaves the builder as it was whenever
  an order is out of range or the orders do not multiply to the number of coefficients
  (\<open>addExplicitPiece_rejects\<close>).
\<close>

theorem addExplicitPiece_divides_by_zero_order:
  "addExplicitPiece 0 0 [] (IGACreator_init IGAData_init) = Inl DivisionByZero"
  by (simp add: addExplicitPiece_def)

theorem addExplicitPiece_divides_by_zero_order_witness:
  "addExplicitPiece 0 0 [] (IGACreator_init IGAData_init)
     \<noteq> Inr (INVALID_INDEX, IGACreator_init IGAData_init)"
  using addExplicitPiece_divides_by_zero_order by simp

subsection \<open>getLayoutIndex\<close>

lemma lexicographical_compare_total:
  fixes xs ys :: "('a::linorder) list"
  shows "length xs = length ys \<Longrightarrow> \<not> lexicographical_compare (<) xs ys \<Longrightarrow>
         \<not> lexicographical_compare (<) ys xs \<Longrightarrow> xs = ys"
  by (induction xs ys rule: list_induct2) (auto split: if_splits)

lemma side_ranges_inject: "side_ranges a = side_ranges b \<Longrightarrow> a = b"
  by (cases a; cases b) simp

lemma length_side_ranges: "length (side_ranges a) = 5"
  by (cases a) simp

lemma FaceLayout_less_irrefl: "\<not> FaceLayout_less l l"
  by (simp add: FaceLayout_less_def lexicographical_compare_irrefl)

lemma FaceLayout_differs:
  "(FaceLayout_less a b \<or> FaceLayout_less b a) = (a \<noteq> b)"
proof
  assume "FaceLayout_less a b \<or> FaceLayout_less b a"
  then show "a \<noteq> b" using FaceLayout_less_irrefl by auto
next
  assume ne: "a \<noteq> b"
  show "FaceLayout_less a b \<or> FaceLayout_less b a"
  proof (rule ccontr)
    assume "\<not> (FaceLayout_less a b \<or> FaceLayout_less b a)"
    then have "side_ranges a = side_ranges b"
      by (intro lexicographical_compare_total) (simp_all add: FaceLayout_less_def length_side_ranges)
    with ne show False by (simp add: side_ranges_inject)
  qed
qed

lemma map_find_assign_other:
  "map_find lt k m = None \<Longrightarrow> lt k' k \<or> lt k k' \<Longrightarrow> map_find lt k (map_assign lt k' v m) = None"
  by (induction m) (auto split: if_splits)

lemma FaceLayout_same:
  "(\<not> FaceLayout_less a b \<and> \<not> FaceLayout_less b a) = (a = b)"
  using FaceLayout_differs [of a b] by blast

lemma map_find_layout: "map_find FaceLayout_less k m = map_of m k"
proof (induction m)
  case Nil
  show ?case by simp
next
  case (Cons e m)
  obtain k' v where e: "e = (k', v)" by (cases e)
  have "map_find FaceLayout_less k ((k', v) # m) =
        (if k' = k then Some v else map_find FaceLayout_less k m)"
    using FaceLayout_same [of k' k] by (cases "k' = k") auto
  with Cons.IH e show ?case by auto
qed

lemma map_assign_layout_new:
  "map_find FaceLayout_less k m = None \<Longrightarrow> map_assign FaceLayout_less k v m = m @ [(k, v)]"
  by (induction m) (auto split: if_splits)

lemma layout_dictionary_ok_init: "layout_dictionary_ok (IGACreator_init parent)"
  by (simp add: layout_dictionary_ok_def IGACreator_init_def clear_def IGAData_init_def)

lemma addLayout_cases:
  "addLayout l c = (i, c') \<Longrightarrow>
   (i = INVALID_INDEX \<and> c' = c) \<or>
   (i \<noteq> INVALID_INDEX \<and> unat i = length (mLayouts (mParent c)) \<and>
    c' = c\<lparr>mParent := (mParent c)\<lparr>mLayouts := mLayouts (mParent c) @ [l]\<rparr>\<rparr>)"
proof -
  assume r: "addLayout l c = (i, c')"
  obtain j ls where sa: "safeAppend 20 (mLayouts (mParent c)) l = (j, ls)"
    by (cases "safeAppend 20 (mLayouts (mParent c)) l")
  from safeAppend_cases [OF sa] r sa show ?thesis
    by (auto simp add: addLayout_def)
qed

text \<open>The builder as \<open>getLayoutIndex\<close> leaves it when the layout is not in the table yet.\<close>

lemma getLayoutIndex_miss:
  assumes miss: "map_find FaceLayout_less l (mLayoutLookup c) = None"
    and c0: "c0 = (if mLayouts (mParent c) = [] \<and> l \<noteq> default_layout
                   then c\<lparr>mLayoutLookup := map_assign FaceLayout_less default_layout 0 (mLayoutLookup c),
                          mParent := (mParent c)\<lparr>mLayouts := mLayouts (mParent c) @ [default_layout]\<rparr>\<rparr>
                   else c)"
    and add: "addLayout l c0 = (i, c1)"
  shows "getLayoutIndex l c =
           (if i = INVALID_INDEX then (INVALID_INDEX, c1)
            else (i, c1\<lparr>mLayoutLookup := map_assign FaceLayout_less l i (mLayoutLookup c1)\<rparr>))"
  using miss add unfolding c0 getLayoutIndex_def FaceLayout_differs
  by (simp split: prod.splits)

lemma getLayoutIndex_keeps_dictionary:
  assumes ok: "layout_dictionary_ok c"
  shows "layout_dictionary_ok (snd (getLayoutIndex l c))"
proof (cases "map_find FaceLayout_less l (mLayoutLookup c)")
  case (Some found)
  with ok show ?thesis by (simp add: getLayoutIndex_def)
next
  case None
  define c0 where "c0 = (if mLayouts (mParent c) = [] \<and> l \<noteq> default_layout
                   then c\<lparr>mLayoutLookup := map_assign FaceLayout_less default_layout 0 (mLayoutLookup c),
                          mParent := (mParent c)\<lparr>mLayouts := mLayouts (mParent c) @ [default_layout]\<rparr>\<rparr>
                   else c)"
  obtain i c1 where add: "addLayout l c0 = (i, c1)"
    by (cases "addLayout l c0")
  note res = getLayoutIndex_miss [OF None c0_def add]
  have empty: "mLayoutLookup c = []" if "mLayouts (mParent c) = []"
    using ok that by (cases "mLayoutLookup c") (auto simp add: layout_dictionary_ok_def)
  have ok0: "layout_dictionary_ok c0"
    using ok empty by (auto simp add: c0_def layout_dictionary_ok_def)
  have miss0: "map_find FaceLayout_less l (mLayoutLookup c0) = None"
    using None empty by (auto simp add: c0_def map_find_layout FaceLayout_same)
  have first0: "l = default_layout" if "mLayouts (mParent c0) = []"
    using that by (auto simp add: c0_def split: if_splits)
  from addLayout_cases [OF add] show ?thesis
  proof
    assume "i = INVALID_INDEX \<and> c1 = c0"
    with res ok0 show ?thesis by simp
  next
    assume grown: "i \<noteq> INVALID_INDEX \<and> unat i = length (mLayouts (mParent c0)) \<and>
      c1 = c0\<lparr>mParent := (mParent c0)\<lparr>mLayouts := mLayouts (mParent c0) @ [l]\<rparr>\<rparr>"
    then have lk: "mLayoutLookup c1 = mLayoutLookup c0"
      by simp
    have new: "map_assign FaceLayout_less l i (mLayoutLookup c1) = mLayoutLookup c0 @ [(l, i)]"
      using miss0 by (simp add: lk map_assign_layout_new)
    have old: "list_all (\<lambda>(k, j). unat j < length (mLayouts (mParent c0) @ [l]) \<and>
                 (mLayouts (mParent c0) @ [l]) ! unat j = k) (mLayoutLookup c0)"
      using ok0 by (auto simp add: layout_dictionary_ok_def list_all_iff nth_append)
    have head: "(mLayouts (mParent c0) @ [l]) ! 0 = default_layout"
      using ok0 first0 by (cases "mLayouts (mParent c0)") (auto simp add: layout_dictionary_ok_def)
    from grown res new old head show ?thesis
      by (simp add: layout_dictionary_ok_def)
  qed
qed

lemma getLayoutIndex_repeat:
  assumes valid: "fst (getLayoutIndex l c) \<noteq> INVALID_INDEX"
  shows "getLayoutIndex l (snd (getLayoutIndex l c)) = getLayoutIndex l c"
proof (cases "map_find FaceLayout_less l (mLayoutLookup c)")
  case (Some found)
  then show ?thesis by (simp add: getLayoutIndex_def)
next
  case None
  define c0 where "c0 = (if mLayouts (mParent c) = [] \<and> l \<noteq> default_layout
                   then c\<lparr>mLayoutLookup := map_assign FaceLayout_less default_layout 0 (mLayoutLookup c),
                          mParent := (mParent c)\<lparr>mLayouts := mLayouts (mParent c) @ [default_layout]\<rparr>\<rparr>
                   else c)"
  obtain i c1 where add: "addLayout l c0 = (i, c1)"
    by (cases "addLayout l c0")
  note res = getLayoutIndex_miss [OF None c0_def add]
  from res valid have i: "i \<noteq> INVALID_INDEX"
    by (auto split: if_splits)
  have miss0: "map_find FaceLayout_less l (mLayoutLookup c0) = None"
    using None by (auto simp add: c0_def map_find_assign_other FaceLayout_differs)
  from addLayout_cases [OF add] i have "mLayoutLookup c1 = mLayoutLookup c0"
    by auto
  with miss0 have "map_find FaceLayout_less l (map_assign FaceLayout_less l i (mLayoutLookup c1)) = Some i"
    by (simp add: map_find_assign_new FaceLayout_less_irrefl)
  with res i show ?thesis
    by (simp add: getLayoutIndex_def)
qed

lemma getLayoutIndex_stores:
  assumes ok: "layout_dictionary_ok c"
    and valid: "fst (getLayoutIndex l c) \<noteq> INVALID_INDEX"
  shows "mLayouts (mParent (snd (getLayoutIndex l c))) \<noteq> []"
proof (cases "map_find FaceLayout_less l (mLayoutLookup c)")
  case (Some found)
  then have "(l, found) \<in> set (mLayoutLookup c)"
    by (simp add: map_find_layout map_of_SomeD)
  with ok have "unat found < length (mLayouts (mParent c))"
    by (auto simp add: layout_dictionary_ok_def list_all_iff)
  with Some show ?thesis by (auto simp add: getLayoutIndex_def)
next
  case None
  define c0 where "c0 = (if mLayouts (mParent c) = [] \<and> l \<noteq> default_layout
                   then c\<lparr>mLayoutLookup := map_assign FaceLayout_less default_layout 0 (mLayoutLookup c),
                          mParent := (mParent c)\<lparr>mLayouts := mLayouts (mParent c) @ [default_layout]\<rparr>\<rparr>
                   else c)"
  obtain i c1 where add: "addLayout l c0 = (i, c1)"
    by (cases "addLayout l c0")
  note res = getLayoutIndex_miss [OF None c0_def add]
  from res valid have i: "i \<noteq> INVALID_INDEX"
    by (auto split: if_splits)
  with addLayout_cases [OF add] res show ?thesis
    by auto
qed

lemma getLayoutIndex_first:
  assumes ok: "layout_dictionary_ok c"
    and empty: "mLayouts (mParent c) = []" and other: "l \<noteq> default_layout"
  shows "getLayoutIndex l c =
           (1, c\<lparr>mLayoutLookup := [(default_layout, 0), (l, 1)],
                  mParent := (mParent c)\<lparr>mLayouts := [default_layout, l]\<rparr>\<rparr>)"
proof -
  have lk: "mLayoutLookup c = []"
    using ok empty by (cases "mLayoutLookup c") (auto simp add: layout_dictionary_ok_def)
  have "(1 :: uint32_t) \<noteq> INVALID_INDEX"
    by (simp add: INVALID_INDEX_def)
  then show ?thesis
    using other
    by (simp add: getLayoutIndex_def lk empty FaceLayout_differs addLayout_def safeAppend_def
          max_size_def INVALID_INDEX_def FaceLayout_same)
qed

text \<open>
  The operations that add no layout leave the layout dictionary alone. Only the raw
  \<open>addLayout\<close>, which stores a layout without entering it in the lookup table, is not
  among them.
\<close>

lemma layout_dictionary_cong:
  "mLayouts (mParent c') = mLayouts (mParent c) \<and> mLayoutLookup c' = mLayoutLookup c \<Longrightarrow>
   layout_dictionary_ok c' = layout_dictionary_ok c"
  by (simp add: layout_dictionary_ok_def)

lemma addCoeffs_layouts:
  "mLayouts (mParent (snd (addCoeffs v c))) = mLayouts (mParent c) \<and>
   mLayoutLookup (snd (addCoeffs v c)) = mLayoutLookup c"
  by (simp add: addCoeffs_def)

lemma getDictionaryIndex_layouts:
  "mLayouts (mParent (snd (getDictionaryIndex v c))) = mLayouts (mParent c) \<and>
   mLayoutLookup (snd (getDictionaryIndex v c)) = mLayoutLookup c"
proof -
  obtain n c1 where a: "addCoeffs v c = (n, c1)"
    by (cases "addCoeffs v c")
  with addCoeffs_layouts [of v c]
  have "mLayouts (mParent c1) = mLayouts (mParent c) \<and> mLayoutLookup c1 = mLayoutLookup c"
    by simp
  then show ?thesis
    by (simp add: getDictionaryIndex_def a split: option.splits)
qed

lemma addPiece_layouts:
  "mLayouts (mParent (snd (addPiece piece c))) = mLayouts (mParent c) \<and>
   mLayoutLookup (snd (addPiece piece c)) = mLayoutLookup c"
  by (cases "safeAppend 16 (mPieces (mParent c)) piece") (simp add: addPiece_def)

lemma addPoint_layouts:
  "mLayouts (mParent (snd (addPoint pt c))) = mLayouts (mParent c) \<and>
   mLayoutLookup (snd (addPoint pt c)) = mLayoutLookup c"
  by (cases "safeAppend 32 (mPoints (mParent c)) pt") (simp add: addPoint_def)

lemma addElem_layouts:
  "mLayouts (mParent (snd (addElem elem c))) = mLayouts (mParent c) \<and>
   mLayoutLookup (snd (addElem elem c)) = mLayoutLookup c"
  by (cases "safeAppend 12 (mElems (mParent c)) elem") (simp add: addElem_def)

lemma addEdge_layouts:
  "mLayouts (mParent (snd (addEdge elem knot_interval c))) = mLayouts (mParent c) \<and>
   mLayoutLookup (snd (addEdge elem knot_interval c)) = mLayoutLookup c"
  by (cases "safeAppend 4 (mEdges (mParent c)) elem";
      cases "safeAppend 8 (mIntervals (mParent c)) knot_interval")
     (simp add: addEdge_def)

lemma finishElem_layouts:
  "mLayouts (mParent (snd (finishElem index c))) = mLayouts (mParent c) \<and>
   mLayoutLookup (snd (finishElem index c)) = mLayoutLookup c"
  by (simp add: finishElem_def addElem_layouts)

lemma addExplicitPiece_layouts:
  assumes "addExplicitPiece s_order pt coeffs c = Inr (index, c')"
  shows "mLayouts (mParent c') = mLayouts (mParent c) \<and> mLayoutLookup c' = mLayoutLookup c"
proof -
  obtain i c1 where d: "getDictionaryIndex coeffs c = (i, c1)"
    by (cases "getDictionaryIndex coeffs c")
  with getDictionaryIndex_layouts [of coeffs c]
  have c1: "mLayouts (mParent c1) = mLayouts (mParent c) \<and> mLayoutLookup c1 = mLayoutLookup c"
    by simp
  obtain j c2 where p: "addPiece \<lparr>st_order = word_of_int (sint s_order)
                                   OR push_bit 16 (word_of_int (int (length coeffs) sdiv sint s_order)),
                       s_index = i, maybe_t_index = INVALID_INDEX, pt_index = pt\<rparr> c1 = (j, c2)"
    by (cases "addPiece \<lparr>st_order = word_of_int (sint s_order)
                                   OR push_bit 16 (word_of_int (int (length coeffs) sdiv sint s_order)),
                       s_index = i, maybe_t_index = INVALID_INDEX, pt_index = pt\<rparr> c1")
  with addPiece_layouts [of _ c1] c1
  have c2: "mLayouts (mParent c2) = mLayouts (mParent c) \<and> mLayoutLookup c2 = mLayoutLookup c"
    by (metis snd_conv)
  from assms d p c1 c2 show ?thesis
    unfolding addExplicitPiece_def
    by (simp split: if_splits)
qed

lemma addTensorPiece_layouts:
  "mLayouts (mParent (snd (addTensorPiece s_coeffs t_coeffs pt c))) = mLayouts (mParent c) \<and>
   mLayoutLookup (snd (addTensorPiece s_coeffs t_coeffs pt c)) = mLayoutLookup c"
proof -
  obtain si c1 where s: "getDictionaryIndex s_coeffs c = (si, c1)"
    by (cases "getDictionaryIndex s_coeffs c")
  obtain ti c2 where t: "getDictionaryIndex t_coeffs c1 = (ti, c2)"
    by (cases "getDictionaryIndex t_coeffs c1")
  from s getDictionaryIndex_layouts [of s_coeffs c]
  have c1: "mLayouts (mParent c1) = mLayouts (mParent c) \<and> mLayoutLookup c1 = mLayoutLookup c"
    by simp
  from t getDictionaryIndex_layouts [of t_coeffs c1] c1
  have c2: "mLayouts (mParent c2) = mLayouts (mParent c) \<and> mLayoutLookup c2 = mLayoutLookup c"
    by simp
  show ?thesis
    by (simp add: addTensorPiece_def s t c1 c2 addPiece_layouts)
qed

lemma layout_dictionary_ok_kept:
  "layout_dictionary_ok (snd (addCoeffs v c)) = layout_dictionary_ok c"
  "layout_dictionary_ok (snd (getDictionaryIndex v c)) = layout_dictionary_ok c"
  "layout_dictionary_ok (snd (addPiece piece c)) = layout_dictionary_ok c"
  "layout_dictionary_ok (snd (addPoint pt3 c)) = layout_dictionary_ok c"
  "layout_dictionary_ok (snd (addElem elem c)) = layout_dictionary_ok c"
  "layout_dictionary_ok (snd (addEdge other knot_interval c)) = layout_dictionary_ok c"
  "layout_dictionary_ok (snd (finishElem index c)) = layout_dictionary_ok c"
  "layout_dictionary_ok (snd (addTensorPiece s_coeffs t_coeffs pt c)) = layout_dictionary_ok c"
  "layout_dictionary_ok (setSurfaceType surface_type c) = layout_dictionary_ok c"
  "addExplicitPiece s_order pt coeffs c = Inr (i, c') \<Longrightarrow>
     layout_dictionary_ok c' = layout_dictionary_ok c"
  by (rule layout_dictionary_cong, rule addCoeffs_layouts)
     (rule layout_dictionary_cong, rule getDictionaryIndex_layouts,
      rule layout_dictionary_cong, rule addPiece_layouts,
      rule layout_dictionary_cong, rule addPoint_layouts,
      rule layout_dictionary_cong, rule addElem_layouts,
      rule layout_dictionary_cong, rule addEdge_layouts,
      rule layout_dictionary_cong, rule finishElem_layouts,
      rule layout_dictionary_cong, rule addTensorPiece_layouts,
      simp add: layout_dictionary_ok_def setSurfaceType_def,
      rule layout_dictionary_cong, erule addExplicitPiece_layouts)

text \<open>Every builder has a lookup table that gives stored layouts.\<close>

lemma layout_dictionary_ok_iff:
  "layout_dictionary_ok c =
     (layout_lookup_ok c \<and>
      (mLayouts (mParent c) \<noteq> [] \<longrightarrow> mLayouts (mParent c) ! 0 = default_layout))"
  by (simp add: layout_dictionary_ok_def layout_lookup_ok_def)

lemma layout_lookup_cong:
  "mLayouts (mParent c') = mLayouts (mParent c) \<and> mLayoutLookup c' = mLayoutLookup c \<Longrightarrow>
   layout_lookup_ok c' = layout_lookup_ok c"
  by (simp add: layout_lookup_ok_def)

lemma layout_lookup_ok_init: "layout_lookup_ok (IGACreator_init parent)"
  by (simp add: layout_lookup_ok_def IGACreator_init_def)

lemma layout_lookup_ok_grown:
  assumes ok: "layout_lookup_ok c"
  shows "layout_lookup_ok (c\<lparr>mParent := (mParent c)\<lparr>mLayouts := mLayouts (mParent c) @ [l]\<rparr>\<rparr>)"
  using ok by (auto simp add: layout_lookup_ok_def list_all_iff nth_append)

lemma addLayout_keeps_lookup:
  assumes ok: "layout_lookup_ok c"
  shows "layout_lookup_ok (snd (addLayout l c))"
proof -
  obtain i c' where r: "addLayout l c = (i, c')"
    by (cases "addLayout l c")
  from addLayout_cases [OF r] show ?thesis
  proof
    assume "i = INVALID_INDEX \<and> c' = c"
    with r ok show ?thesis by simp
  next
    assume "i \<noteq> INVALID_INDEX \<and> unat i = length (mLayouts (mParent c)) \<and>
            c' = c\<lparr>mParent := (mParent c)\<lparr>mLayouts := mLayouts (mParent c) @ [l]\<rparr>\<rparr>"
    with r layout_lookup_ok_grown [OF ok, of l] show ?thesis by simp
  qed
qed

lemma getLayoutIndex_keeps_lookup:
  assumes ok: "layout_lookup_ok c"
  shows "layout_lookup_ok (snd (getLayoutIndex l c))"
proof (cases "map_find FaceLayout_less l (mLayoutLookup c)")
  case (Some found)
  with ok show ?thesis by (simp add: getLayoutIndex_def)
next
  case None
  define c0 where "c0 = (if mLayouts (mParent c) = [] \<and> l \<noteq> default_layout
                   then c\<lparr>mLayoutLookup := map_assign FaceLayout_less default_layout 0 (mLayoutLookup c),
                          mParent := (mParent c)\<lparr>mLayouts := mLayouts (mParent c) @ [default_layout]\<rparr>\<rparr>
                   else c)"
  obtain i c1 where add: "addLayout l c0 = (i, c1)"
    by (cases "addLayout l c0")
  note res = getLayoutIndex_miss [OF None c0_def add]
  have empty: "mLayoutLookup c = []" if "mLayouts (mParent c) = []"
    using ok that by (cases "mLayoutLookup c") (auto simp add: layout_lookup_ok_def)
  have ok0: "layout_lookup_ok c0"
    using ok empty by (auto simp add: c0_def layout_lookup_ok_def)
  have miss0: "map_find FaceLayout_less l (mLayoutLookup c0) = None"
    using None empty by (auto simp add: c0_def map_find_layout FaceLayout_same)
  from addLayout_cases [OF add] show ?thesis
  proof
    assume "i = INVALID_INDEX \<and> c1 = c0"
    with res ok0 show ?thesis by simp
  next
    assume grown: "i \<noteq> INVALID_INDEX \<and> unat i = length (mLayouts (mParent c0)) \<and>
      c1 = c0\<lparr>mParent := (mParent c0)\<lparr>mLayouts := mLayouts (mParent c0) @ [l]\<rparr>\<rparr>"
    then have lk: "mLayoutLookup c1 = mLayoutLookup c0"
      by simp
    have new: "map_assign FaceLayout_less l i (mLayoutLookup c1) = mLayoutLookup c0 @ [(l, i)]"
      using miss0 by (simp add: lk map_assign_layout_new)
    have old: "list_all (\<lambda>(k, j). unat j < length (mLayouts (mParent c0) @ [l]) \<and>
                 (mLayouts (mParent c0) @ [l]) ! unat j = k) (mLayoutLookup c0)"
      using ok0 by (auto simp add: layout_lookup_ok_def list_all_iff nth_append)
    from grown res new old show ?thesis
      by (simp add: layout_lookup_ok_def)
  qed
qed

lemma built_layout_lookup_ok: "built c \<Longrightarrow> layout_lookup_ok c"
proof (induction rule: built.induct)
  case (constructed parent)
  show ?case by (rule layout_lookup_ok_init)
next
  case (raw_layout c l)
  then show ?case by (simp add: addLayout_keeps_lookup)
next
  case (layout_index c l)
  then show ?case by (simp add: getLayoutIndex_keeps_lookup)
next
  case (coeffs c v)
  then show ?case using layout_lookup_cong [OF addCoeffs_layouts] by simp
next
  case (dictionary_index c v)
  then show ?case using layout_lookup_cong [OF getDictionaryIndex_layouts] by simp
next
  case (piece c p)
  then show ?case using layout_lookup_cong [OF addPiece_layouts] by simp
next
  case (point c pt)
  then show ?case using layout_lookup_cong [OF addPoint_layouts] by simp
next
  case (element c e)
  then show ?case using layout_lookup_cong [OF addElem_layouts] by simp
next
  case (edge c other knot_interval)
  then show ?case using layout_lookup_cong [OF addEdge_layouts] by simp
next
  case (finished c index)
  then show ?case using layout_lookup_cong [OF finishElem_layouts] by simp
next
  case (tensor_piece c s_coeffs t_coeffs pt)
  then show ?case using layout_lookup_cong [OF addTensorPiece_layouts] by simp
next
  case (surface_type c surface_type)
  then show ?case by (simp add: layout_lookup_ok_def setSurfaceType_def)
next
  case (explicit_piece c s_order pt v i c')
  then show ?case using layout_lookup_cong [OF addExplicitPiece_layouts] by simp
qed

text \<open>
  C7, as stated, fails: the raw \<open>addLayout\<close> is public and stores a layout without
  looking at the lookup table or at the default layout. After \<open>addLayout\<close> of
  \<open>{0,2,3,4,5}\<close> on a new builder, \<open>getLayoutIndex\<close> of the default layout finds no
  entry, finds the layout array not empty, appends, and returns the valid index 1: the
  layout stored at index 0 is \<open>{0,2,3,4,5}\<close>, not the default layout.
\<close>

theorem getLayoutIndex_after_raw_addLayout:
  "built (snd (addLayout (FaceLayout 0 2 3 4 5) (IGACreator_init IGAData_init))) \<and>
   getLayoutIndex default_layout (snd (addLayout (FaceLayout 0 2 3 4 5) (IGACreator_init IGAData_init))) =
     (1, \<lparr>mParent = IGAData_init\<lparr>mLayouts := [FaceLayout 0 2 3 4 5, FaceLayout 0 1 2 3 4]\<rparr>,
          mCoeffLookup = [],
          mLayoutLookup = [(FaceLayout 0 1 2 3 4, 1)]\<rparr>) \<and>
   (1 :: uint32_t) \<noteq> INVALID_INDEX \<and>
   mLayouts (mParent (snd (getLayoutIndex default_layout
      (snd (addLayout (FaceLayout 0 2 3 4 5) (IGACreator_init IGAData_init)))))) ! 0
     = FaceLayout 0 2 3 4 5 \<and>
   FaceLayout 0 2 3 4 5 \<noteq> default_layout"
proof -
  have b: "built (snd (addLayout (FaceLayout 0 2 3 4 5) (IGACreator_init IGAData_init)))"
    by (rule built.raw_layout) (rule built.constructed)
  have raw: "snd (addLayout (FaceLayout 0 2 3 4 5) (IGACreator_init IGAData_init)) =
      \<lparr>mParent = IGAData_init\<lparr>mLayouts := [FaceLayout 0 2 3 4 5]\<rparr>,
       mCoeffLookup = [], mLayoutLookup = []\<rparr>"
    by (simp add: addLayout_def safeAppend_def IGACreator_init_def clear_def IGAData_init_def
          INVALID_INDEX_def max_size_def)
  have call: "getLayoutIndex default_layout
      \<lparr>mParent = IGAData_init\<lparr>mLayouts := [FaceLayout 0 2 3 4 5]\<rparr>,
       mCoeffLookup = [], mLayoutLookup = []\<rparr> =
     (1, \<lparr>mParent = IGAData_init\<lparr>mLayouts := [FaceLayout 0 2 3 4 5, FaceLayout 0 1 2 3 4]\<rparr>,
          mCoeffLookup = [],
          mLayoutLookup = [(FaceLayout 0 1 2 3 4, 1)]\<rparr>)"
    by (simp add: getLayoutIndex_def addLayout_def safeAppend_def IGAData_init_def
          INVALID_INDEX_def max_size_def default_layout_def)
  have other: "FaceLayout 0 2 3 4 5 \<noteq> default_layout"
    by (simp add: default_layout_def)
  have valid: "(1 :: uint32_t) \<noteq> INVALID_INDEX"
    by (simp add: INVALID_INDEX_def)
  from b other valid show ?thesis
    by (simp add: raw call)
qed

text \<open>
  C7, amended. For every layout and every builder (\<open>built\<close>): called with a layout
  other than the default while no layout is stored, \<open>getLayoutIndex\<close> stores the default
  layout at index 0 and the layout at index 1, which it returns; after every call that
  returns a valid index, made while the layout array was empty or had the default layout
  at index 0, the layout stored at index 0 is the default layout; and calling again with
  the same layout returns the same index and changes nothing, so the layout array does
  not grow.
\<close>

theorem getLayoutIndex_default_first:
  assumes b: "built c"
  shows "(mLayouts (mParent c) = [] \<and> l \<noteq> default_layout \<longrightarrow>
            getLayoutIndex l c =
              (1, c\<lparr>mLayoutLookup := [(default_layout, 0), (l, 1)],
                     mParent := (mParent c)\<lparr>mLayouts := [default_layout, l]\<rparr>\<rparr>)) \<and>
         ((mLayouts (mParent c) \<noteq> [] \<longrightarrow> mLayouts (mParent c) ! 0 = default_layout) \<longrightarrow>
          fst (getLayoutIndex l c) \<noteq> INVALID_INDEX \<longrightarrow>
            mLayouts (mParent (snd (getLayoutIndex l c))) \<noteq> [] \<and>
            mLayouts (mParent (snd (getLayoutIndex l c))) ! 0 = default_layout) \<and>
         (fst (getLayoutIndex l c) \<noteq> INVALID_INDEX \<longrightarrow>
            getLayoutIndex l (snd (getLayoutIndex l c)) = getLayoutIndex l c)"
proof -
  from b have lookup: "layout_lookup_ok c"
    by (rule built_layout_lookup_ok)
  have first: "getLayoutIndex l c =
              (1, c\<lparr>mLayoutLookup := [(default_layout, 0), (l, 1)],
                     mParent := (mParent c)\<lparr>mLayouts := [default_layout, l]\<rparr>\<rparr>)"
    if "mLayouts (mParent c) = []" "l \<noteq> default_layout"
  proof -
    from lookup that(1) have "layout_dictionary_ok c"
      by (simp add: layout_dictionary_ok_iff)
    then show ?thesis using that by (rule getLayoutIndex_first)
  qed
  have zero: "mLayouts (mParent (snd (getLayoutIndex l c))) \<noteq> [] \<and>
            mLayouts (mParent (snd (getLayoutIndex l c))) ! 0 = default_layout"
    if "mLayouts (mParent c) \<noteq> [] \<longrightarrow> mLayouts (mParent c) ! 0 = default_layout"
      "fst (getLayoutIndex l c) \<noteq> INVALID_INDEX"
  proof -
    from lookup that(1) have ok: "layout_dictionary_ok c"
      by (simp add: layout_dictionary_ok_iff)
    have kept: "layout_dictionary_ok (snd (getLayoutIndex l c))"
      using ok by (rule getLayoutIndex_keeps_dictionary)
    with getLayoutIndex_stores [OF ok that(2)] show ?thesis
      by (simp add: layout_dictionary_ok_def)
  qed
  from first zero getLayoutIndex_repeat [of l c] show ?thesis
    by blast
qed

theorem getLayoutIndex_default_first_witness:
  "built (IGACreator_init IGAData_init) \<and>
   getLayoutIndex (FaceLayout 0 2 3 4 5) (IGACreator_init IGAData_init) =
     (1, \<lparr>mParent = IGAData_init\<lparr>mLayouts := [FaceLayout 0 1 2 3 4, FaceLayout 0 2 3 4 5]\<rparr>,
          mCoeffLookup = [],
          mLayoutLookup = [(FaceLayout 0 1 2 3 4, 0), (FaceLayout 0 2 3 4 5, 1)]\<rparr>) \<and>
   mLayouts (mParent (snd (getLayoutIndex (FaceLayout 0 2 3 4 5) (IGACreator_init IGAData_init)))) ! 0
     = FaceLayout 0 1 2 3 4"
proof -
  have b: "built (IGACreator_init IGAData_init)"
    by (rule built.constructed)
  have first: "getLayoutIndex (FaceLayout 0 2 3 4 5) (IGACreator_init IGAData_init) =
     (1, \<lparr>mParent = IGAData_init\<lparr>mLayouts := [FaceLayout 0 1 2 3 4, FaceLayout 0 2 3 4 5]\<rparr>,
          mCoeffLookup = [],
          mLayoutLookup = [(FaceLayout 0 1 2 3 4, 0), (FaceLayout 0 2 3 4 5, 1)]\<rparr>)"
    using getLayoutIndex_default_first [OF b, of "FaceLayout 0 2 3 4 5"]
    by (simp add: IGACreator_init_def clear_def IGAData_init_def default_layout_def)
  from b first show ?thesis
    by simp
qed

section \<open>isValid\<close>

lemma stored_default_rejected:
  "isValid (IGAData_init\<lparr>mEdges := [INVALID_INDEX, INVALID_INDEX, INVALID_INDEX],
              mLayouts := [default_layout],
              mElems := [\<lparr>piece_end_index = 0, layout_index = 0, edge_end_index = 3\<rparr>]\<rparr>) = Inr False"
  by (simp add: isValid_def IGAData_init_def INVALID_INDEX_def default_layout_def side_range_def
      FaceLayout_less_def set_insert_def)

text \<open>
  C2. A model with no stored layout, three boundary edges and one element of layout 0
  that ends at edge 3: the element has three edges, its layout (the default layout,
  as \<open>layout\<close> and \<open>elemEdgeCount\<close> resolve index 0) has four, and \<open>isValid\<close> returns
  \<open>true\<close>. The comparison of the two counts is made only when the layout is stored;
  with the default layout stored the same model is rejected
  (\<open>stored_default_rejected\<close>).
\<close>

theorem isValid_accepts_three_edges_on_default_layout:
  "isValid (IGAData_init\<lparr>mEdges := [INVALID_INDEX, INVALID_INDEX, INVALID_INDEX],
              mElems := [\<lparr>piece_end_index = 0, layout_index = 0, edge_end_index = 3\<rparr>]\<rparr>) = Inr True \<and>
   edgeEnd (IGAData_init\<lparr>mEdges := [INVALID_INDEX, INVALID_INDEX, INVALID_INDEX],
              mElems := [\<lparr>piece_end_index = 0, layout_index = 0, edge_end_index = 3\<rparr>]\<rparr>) 0
     - edgeBegin (IGAData_init\<lparr>mEdges := [INVALID_INDEX, INVALID_INDEX, INVALID_INDEX],
              mElems := [\<lparr>piece_end_index = 0, layout_index = 0, edge_end_index = 3\<rparr>]\<rparr>) 0 = 3 \<and>
   elemEdgeCount (IGAData_init\<lparr>mEdges := [INVALID_INDEX, INVALID_INDEX, INVALID_INDEX],
              mElems := [\<lparr>piece_end_index = 0, layout_index = 0, edge_end_index = 3\<rparr>]\<rparr>) 0 = Some 4"
  by (simp add: isValid_def IGAData_init_def INVALID_INDEX_def edgeEnd_def edgeBegin_def
        elemEdgeCount_def layout_def default_layout_def side_range_def)

theorem isValid_accepts_three_edges_on_default_layout_witness:
  "isValid (IGAData_init\<lparr>mEdges := [INVALID_INDEX, INVALID_INDEX, INVALID_INDEX],
              mElems := [\<lparr>piece_end_index = 0, layout_index = 0, edge_end_index = 3\<rparr>]\<rparr>)
     \<noteq> Inr False"
  using isValid_accepts_three_edges_on_default_layout by simp

section \<open>The container format\<close>

subsection \<open>Structs and vectors as bytes\<close>

lemma readData_append: "length a = n \<Longrightarrow> readData (a @ rest) n = Some (a, rest)"
  by (simp add: readData_def)

lemma tag_SRFTYPE: "tagValue (cstr ''SRFTYPE'') = 0x0A45505954465253"
  by (simp add: tagValue_le_word cstr_def le_word_def)

lemma dec_enc_Point3d: "dec_Point3d (enc_Point3d pt) = pt"
  by (simp add: dec_Point3d_def enc_Point3d_def length_le_bytes le_word_le_bytes_64)

lemma length_enc_Point3d: "length (enc_Point3d pt) = 32"
  by (simp add: enc_Point3d_def length_le_bytes)

lemma dec_enc_Piece2D: "dec_Piece2D (enc_Piece2D piece) = piece"
  by (simp add: dec_Piece2D_def enc_Piece2D_def length_le_bytes le_word_le_bytes_32)

lemma length_enc_Piece2D: "length (enc_Piece2D piece) = 16"
  by (simp add: enc_Piece2D_def length_le_bytes)

lemma dec_enc_FaceLayout: "dec_FaceLayout (enc_FaceLayout l) = l"
  by (cases l) (simp add: dec_FaceLayout_def enc_FaceLayout_def length_le_bytes le_word_le_bytes_32)

lemma length_enc_FaceLayout: "length (enc_FaceLayout l) = 20"
  by (cases l) (simp add: enc_FaceLayout_def length_le_bytes)

lemma dec_enc_Elem: "dec_Elem (enc_Elem elem) = elem"
  by (simp add: dec_Elem_def enc_Elem_def length_le_bytes le_word_le_bytes_32)

lemma length_enc_Elem: "length (enc_Elem elem) = 12"
  by (simp add: enc_Elem_def length_le_bytes)

lemma dec_enc_char: "dec_char (enc_char c) = c"
  by (simp add: dec_char_def enc_char_def)

lemma length_vector_bytes:
  "(\<And>v. length (enc v) = sz) \<Longrightarrow> length (vector_bytes enc vec) = length vec * sz"
  by (induction vec) (simp_all add: vector_bytes_def)

lemma vector_of_bytes_Suc:
  "length e = sz \<Longrightarrow>
   vector_of_bytes sz dec (Suc n) (e @ bs) = dec e # vector_of_bytes sz dec n bs"
  by (simp add: vector_of_bytes_def map_upt_Suc del: upt_Suc)

lemma vector_of_bytes_vector_bytes:
  "(\<And>v. length (enc v) = sz) \<Longrightarrow> (\<And>v. dec (enc v) = v) \<Longrightarrow>
   vector_of_bytes sz dec (length vec) (vector_bytes enc vec) = vec"
proof (induction vec)
  case Nil
  show ?case by (simp add: vector_of_bytes_def)
next
  case (Cons v vec)
  have "vector_bytes enc (v # vec) = enc v @ vector_bytes enc vec"
    by (simp add: vector_bytes_def)
  with Cons show ?case
    by (simp add: vector_of_bytes_Suc)
qed

subsection \<open>Reading a block that writeBlock wrote\<close>

declare read_blocks.simps [simp del]

lemma replicate_2: "replicate 2 x = [x, x]"
  by (simp add: numeral_2_eq_2)

lemma tag_VECDICT: "tagValue (cstr ''VECDICT'') = 0x0A54434944434556"
  by (simp add: tagValue_le_word cstr_def le_word_def)

lemma tag_PT3DW: "tagValue (cstr ''PT3DW'') = 0x0A2D2D5744335450"
  by (simp add: tagValue_le_word cstr_def le_word_def replicate_2)

lemma tag_2DPIECE: "tagValue (cstr ''2DPIECE'') = 0x0A45434549504432"
  by (simp add: tagValue_le_word cstr_def le_word_def)

lemma tag_LAYOUT: "tagValue (cstr ''LAYOUT'') = 0x0A2D54554F59414C"
  by (simp add: tagValue_le_word cstr_def le_word_def)

lemma tag_EDGES: "tagValue (cstr ''EDGES'') = 0x0A2D2D5345474445"
  by (simp add: tagValue_le_word cstr_def le_word_def replicate_2)

lemma tag_KNOTINT: "tagValue (cstr ''KNOTINT'') = 0x0A544E49544F4E4B"
  by (simp add: tagValue_le_word cstr_def le_word_def)

lemma tag_SHAPE: "tagValue (cstr ''SHAPE'') = 0x0A2D2D4550414853"
  by (simp add: tagValue_le_word cstr_def le_word_def replicate_2)

lemma tag_IGAFILE: "tagValue (cstr ''IGAFILE'') = 0x0A454C4946414749"
  by (simp add: tagValue_le_word cstr_def le_word_def)

lemma tag_BLOCK_marker: "tagValue BLOCK_marker = 0x0A3A4B434F4C420A"
  by (simp add: tagValue_le_word BLOCK_marker_def cstr_def le_word_def)

lemmas tag_values = tag_SRFTYPE tag_VECDICT tag_PT3DW tag_2DPIECE tag_LAYOUT tag_EDGES tag_KNOTINT
  tag_SHAPE tag_IGAFILE

lemma length_BLOCK_marker: "length BLOCK_marker = 8"
  by (simp add: BLOCK_marker_def cstr_def)

lemma dec_BlockHeader_written:
  "dec_BlockHeader (BLOCK_marker @ le_bytes 8 t @ le_bytes 8 i @ le_bytes 8 l) =
     \<lparr>block_tag = BLOCK_marker, tag = t, block_id = i, block_len = l\<rparr>"
  by (simp add: dec_BlockHeader_def length_BLOCK_marker length_le_bytes le_word_le_bytes_64)

lemma unat_block_length: "n < IGA_MAX_ALLOC \<Longrightarrow> unat (of_nat n :: uint64_t) = n"
  by (simp add: IGA_MAX_ALLOC_def unat_of_nat)

lemma readBlock_written:
  assumes len: "\<And>v. length (enc v) = sz" and inv: "\<And>v. dec (enc v) = v" and sz: "0 < sz"
    and fit: "length vec * sz < IGA_MAX_ALLOC"
  shows "readBlock sz dec dst (of_nat (length (vector_bytes enc vec)))
           (vector_bytes enc vec @ le_bytes 8 (of_nat (length (vector_bytes enc vec)) :: uint64_t) @ rest)
         = Some (if vec = [] then dst else vec, rest)"
proof -
  let ?payload = "vector_bytes enc vec"
  let ?len = "of_nat (length ?payload) :: uint64_t"
  have lp: "length ?payload = length vec * sz"
    using len by (rule length_vector_bytes)
  have un: "unat ?len = length vec * sz"
    using unat_block_length [OF fit] by (simp only: lp)
  have final: "readData (le_bytes 8 ?len @ rest) 8 = Some (le_bytes 8 ?len, rest)"
    by (simp add: readData_append length_le_bytes)
  show ?thesis
  proof (cases "vec = []")
    case True
    then have "?payload = []" by (simp add: vector_bytes_def)
    with True final show ?thesis
      by (simp add: readBlock_def le_word_le_bytes_64)
  next
    case False
    with sz have pos: "0 < length vec * sz" by simp
    have nz: "?len \<noteq> 0"
    proof
      assume "?len = 0"
      then have "unat ?len = 0" by simp
      with un pos show False by simp
    qed
    have body: "readData (?payload @ le_bytes 8 ?len @ rest) (length vec * sz)
                  = Some (?payload, le_bytes 8 ?len @ rest)"
      by (rule readData_append) (simp only: lp)
    have vec: "vector_of_bytes sz dec (length vec) ?payload = vec"
      by (rule vector_of_bytes_vector_bytes [OF len inv])
    from False nz fit sz show ?thesis
      unfolding readBlock_def
      by (simp add: body vec final le_word_le_bytes_64 un)
  qed
qed

lemma read_blocks_end: "length src < 32 \<Longrightarrow> read_blocks geometry src = Some geometry"
  by (subst read_blocks.simps) (simp add: readData_def)

lemma read_blocks_block_bytes:
  "read_blocks geometry (block_bytes block_type contents @ rest) =
     (case read_next_block geometry
             \<lparr>block_tag = BLOCK_marker, tag = tagValue block_type, block_id = 0,
              block_len = of_nat (length contents)\<rparr>
             (contents @ le_bytes 8 (of_nat (length contents) :: uint64_t) @ rest) of
        None \<Rightarrow> None
      | Some (geometry', src') \<Rightarrow> read_blocks geometry' src')"
proof -
  let ?hdr = "BLOCK_marker @ le_bytes 8 (tagValue block_type) @ le_bytes 8 (0 :: uint64_t)
     @ le_bytes 8 (of_nat (length contents) :: uint64_t)"
  have split: "block_bytes block_type contents @ rest =
               ?hdr @ (contents @ le_bytes 8 (of_nat (length contents) :: uint64_t) @ rest)"
    by (simp add: block_bytes_def)
  have hdr: "readData (?hdr @ (contents @ le_bytes 8 (of_nat (length contents) :: uint64_t) @ rest)) 32
               = Some (?hdr, contents @ le_bytes 8 (of_nat (length contents) :: uint64_t) @ rest)"
    by (rule readData_append) (simp add: length_BLOCK_marker length_le_bytes)
  show ?thesis
    unfolding split
    by (subst read_blocks.simps) (simp only: hdr option.case prod.case dec_BlockHeader_written)
qed

lemmas readBlock_chars =
  readBlock_written [where enc = enc_char and dec = dec_char and sz = 1, OF _ dec_enc_char, simplified]

lemmas readBlock_doubles =
  readBlock_written [where enc = "le_bytes 8" and dec = "le_word :: uint8_t list \<Rightarrow> uint64_t" and sz = 8,
    OF length_le_bytes le_word_le_bytes_64, simplified]

lemmas readBlock_indices =
  readBlock_written [where enc = "le_bytes 4" and dec = "le_word :: uint8_t list \<Rightarrow> uint32_t" and sz = 4,
    OF length_le_bytes le_word_le_bytes_32, simplified]

lemmas readBlock_points =
  readBlock_written [where enc = enc_Point3d and dec = dec_Point3d and sz = 32,
    OF length_enc_Point3d dec_enc_Point3d, simplified]

lemmas readBlock_pieces =
  readBlock_written [where enc = enc_Piece2D and dec = dec_Piece2D and sz = 16,
    OF length_enc_Piece2D dec_enc_Piece2D, simplified]

lemmas readBlock_layouts =
  readBlock_written [where enc = enc_FaceLayout and dec = dec_FaceLayout and sz = 20,
    OF length_enc_FaceLayout dec_enc_FaceLayout, simplified]

lemmas readBlock_elems =
  readBlock_written [where enc = enc_Elem and dec = dec_Elem and sz = 12,
    OF length_enc_Elem dec_enc_Elem, simplified]

lemma length_enc_char: "length (enc_char c) = 1"
  by (simp add: enc_char_def)

lemma read_written_SRFTYPE:
  "length v < IGA_MAX_ALLOC \<Longrightarrow>
   read_blocks g (block_bytes (cstr ''SRFTYPE'') (vector_bytes enc_char v) @ rest) =
     read_blocks ((clear g)\<lparr>mSrfType := v\<rparr>) rest"
  by (simp add: read_blocks_block_bytes read_next_block_def tag_values tag_BLOCK_marker
        readBlock_chars length_enc_char)

lemma read_written_VECDICT:
  "length v * 8 < IGA_MAX_ALLOC \<Longrightarrow>
   read_blocks g (block_bytes (cstr ''VECDICT'') (vector_bytes (le_bytes 8) v) @ rest) =
     read_blocks (g\<lparr>mCoeffs := if v = [] then mCoeffs g else v\<rparr>) rest"
  by (simp add: read_blocks_block_bytes read_next_block_def tag_values tag_BLOCK_marker
        readBlock_doubles)

lemma read_written_PT3DW:
  "length v * 32 < IGA_MAX_ALLOC \<Longrightarrow>
   read_blocks g (block_bytes (cstr ''PT3DW'') (vector_bytes enc_Point3d v) @ rest) =
     read_blocks (g\<lparr>mPoints := if v = [] then mPoints g else v\<rparr>) rest"
  by (simp add: read_blocks_block_bytes read_next_block_def tag_values tag_BLOCK_marker
        readBlock_points)

lemma read_written_2DPIECE:
  "length v * 16 < IGA_MAX_ALLOC \<Longrightarrow>
   read_blocks g (block_bytes (cstr ''2DPIECE'') (vector_bytes enc_Piece2D v) @ rest) =
     read_blocks (g\<lparr>mPieces := if v = [] then mPieces g else v\<rparr>) rest"
  by (simp add: read_blocks_block_bytes read_next_block_def tag_values tag_BLOCK_marker
        readBlock_pieces)

lemma read_written_LAYOUT:
  "length v * 20 < IGA_MAX_ALLOC \<Longrightarrow>
   read_blocks g (block_bytes (cstr ''LAYOUT'') (vector_bytes enc_FaceLayout v) @ rest) =
     read_blocks (g\<lparr>mLayouts := if v = [] then mLayouts g else v\<rparr>) rest"
  by (simp add: read_blocks_block_bytes read_next_block_def tag_values tag_BLOCK_marker
        readBlock_layouts)

lemma read_written_EDGES:
  "length v * 4 < IGA_MAX_ALLOC \<Longrightarrow>
   read_blocks g (block_bytes (cstr ''EDGES'') (vector_bytes (le_bytes 4) v) @ rest) =
     read_blocks (g\<lparr>mEdges := if v = [] then mEdges g else v\<rparr>) rest"
  by (simp add: read_blocks_block_bytes read_next_block_def tag_values tag_BLOCK_marker
        readBlock_indices)

lemma read_written_KNOTINT:
  "length v * 8 < IGA_MAX_ALLOC \<Longrightarrow>
   read_blocks g (block_bytes (cstr ''KNOTINT'') (vector_bytes (le_bytes 8) v) @ rest) =
     read_blocks (g\<lparr>mIntervals := if v = [] then mIntervals g else v\<rparr>) rest"
  by (simp add: read_blocks_block_bytes read_next_block_def tag_values tag_BLOCK_marker
        readBlock_doubles)

lemma read_written_SHAPE:
  "length v * 12 < IGA_MAX_ALLOC \<Longrightarrow>
   read_blocks g (block_bytes (cstr ''SHAPE'') (vector_bytes enc_Elem v) @ rest) =
     read_blocks (g\<lparr>mElems := if v = [] then mElems g else v\<rparr>) rest"
  by (simp add: read_blocks_block_bytes read_next_block_def tag_values tag_BLOCK_marker
        readBlock_elems)

lemma writeBlock_buffer:
  "writeBlock buffer_writeData block_type contents 0 s = Some (s @ block_bytes block_type contents)"
  by (simp add: writeBlock_def buffer_writeData_def block_bytes_def)

lemma writeIGAFile_buffer:
  "writeIGAFile buffer_writeData g [] =
     Some (cstr ''#TSS0001'' @ block_bytes (cstr ''IGAFILE'') []
           @ block_bytes (cstr ''SRFTYPE'') (vector_bytes enc_char (mSrfType g))
           @ block_bytes (cstr ''VECDICT'') (vector_bytes (le_bytes 8) (mCoeffs g))
           @ block_bytes (cstr ''PT3DW'') (vector_bytes enc_Point3d (mPoints g))
           @ block_bytes (cstr ''2DPIECE'') (vector_bytes enc_Piece2D (mPieces g))
           @ block_bytes (cstr ''LAYOUT'') (vector_bytes enc_FaceLayout (mLayouts g))
           @ block_bytes (cstr ''EDGES'') (vector_bytes (le_bytes 4) (mEdges g))
           @ (if 0 < length (mIntervals g)
              then block_bytes (cstr ''KNOTINT'') (vector_bytes (le_bytes 8) (mIntervals g))
              else [])
           @ block_bytes (cstr ''SHAPE'') (vector_bytes enc_Elem (mElems g)) @ [])"
  by (simp add: writeIGAFile_def writeBlock_buffer) (simp add: buffer_writeData_def)

lemma read_first_block_written:
  "read_first_block (cstr ''#TSS0001'' @ block_bytes (cstr ''IGAFILE'') [] @ rest) = Some rest"
proof -
  have magic: "readData (cstr ''#TSS0001'' @ block_bytes (cstr ''IGAFILE'') [] @ rest) 8
                 = Some (cstr ''#TSS0001'', block_bytes (cstr ''IGAFILE'') [] @ rest)"
    by (rule readData_append) (simp add: cstr_def)
  let ?hdr = "BLOCK_marker @ le_bytes 8 (tagValue (cstr ''IGAFILE'')) @ le_bytes 8 (0 :: uint64_t)
     @ le_bytes 8 (0 :: uint64_t)"
  have split: "block_bytes (cstr ''IGAFILE'') [] @ rest = ?hdr @ (le_bytes 8 (0 :: uint64_t) @ rest)"
    by (simp add: block_bytes_def)
  have hdr: "readData (?hdr @ (le_bytes 8 (0 :: uint64_t) @ rest)) 32
               = Some (?hdr, le_bytes 8 (0 :: uint64_t) @ rest)"
    by (rule readData_append) (simp add: length_BLOCK_marker length_le_bytes)
  have tail: "readBlock 1 dec_char [] 0 (le_bytes 8 (0 :: uint64_t) @ rest) = Some ([], rest)"
    using readBlock_chars [of "[]" "[]" rest]
    by (simp add: vector_bytes_def length_enc_char IGA_MAX_ALLOC_def)
  from tail have tail': "readBlock (Suc 0) dec_char [] 0 (le_bytes 8 (0 :: uint64_t) @ rest) = Some ([], rest)"
    by simp
  show ?thesis
    unfolding read_first_block_def magic
    by (simp add: split hdr dec_BlockHeader_written tail' del: append_assoc)
qed

subsection \<open>Writing a model and reading it back\<close>

lemma write_then_read_fits:
  assumes fit: "fits_IGA_MAX_ALLOC g"
  shows "write_then_read g destination = Some g"
proof -
  from fit have sizes:
    "length (mSrfType g) < IGA_MAX_ALLOC" "length (mCoeffs g) * 8 < IGA_MAX_ALLOC"
    "length (mPoints g) * 32 < IGA_MAX_ALLOC" "length (mPieces g) * 16 < IGA_MAX_ALLOC"
    "length (mLayouts g) * 20 < IGA_MAX_ALLOC" "length (mEdges g) * 4 < IGA_MAX_ALLOC"
    "length (mIntervals g) * 8 < IGA_MAX_ALLOC" "length (mElems g) * 12 < IGA_MAX_ALLOC"
    by (simp_all add: fits_IGA_MAX_ALLOC_def)
  have last: "read_blocks geometry (block_bytes (cstr ''SHAPE'') (vector_bytes enc_Elem (mElems g)) @ []) =
      Some (geometry\<lparr>mElems := if mElems g = [] then mElems geometry else mElems g\<rparr>)" for geometry
    using sizes(8) by (simp only: read_written_SHAPE) (simp add: read_blocks_end)
  have intervals: "read_blocks geometry
      ((if 0 < length (mIntervals g)
        then block_bytes (cstr ''KNOTINT'') (vector_bytes (le_bytes 8) (mIntervals g)) else []) @ rest) =
      read_blocks (geometry\<lparr>mIntervals := if mIntervals g = [] then mIntervals geometry else mIntervals g\<rparr>) rest"
    for geometry rest
    using sizes(7) by (cases "mIntervals g = []") (simp_all add: read_written_KNOTINT)
  have "readIGAFile destination
          (cstr ''#TSS0001'' @ block_bytes (cstr ''IGAFILE'') []
           @ block_bytes (cstr ''SRFTYPE'') (vector_bytes enc_char (mSrfType g))
           @ block_bytes (cstr ''VECDICT'') (vector_bytes (le_bytes 8) (mCoeffs g))
           @ block_bytes (cstr ''PT3DW'') (vector_bytes enc_Point3d (mPoints g))
           @ block_bytes (cstr ''2DPIECE'') (vector_bytes enc_Piece2D (mPieces g))
           @ block_bytes (cstr ''LAYOUT'') (vector_bytes enc_FaceLayout (mLayouts g))
           @ block_bytes (cstr ''EDGES'') (vector_bytes (le_bytes 4) (mEdges g))
           @ (if 0 < length (mIntervals g)
              then block_bytes (cstr ''KNOTINT'') (vector_bytes (le_bytes 8) (mIntervals g))
              else [])
           @ block_bytes (cstr ''SHAPE'') (vector_bytes enc_Elem (mElems g)) @ []) = Some g"
    unfolding readIGAFile_def read_first_block_written option.case
      read_written_SRFTYPE [OF sizes(1)] read_written_VECDICT [OF sizes(2)]
      read_written_PT3DW [OF sizes(3)] read_written_2DPIECE [OF sizes(4)]
      read_written_LAYOUT [OF sizes(5)] read_written_EDGES [OF sizes(6)] intervals last
    by (cases g) (simp add: clear_def IGAData_init_def)
  then show ?thesis
    by (simp only: write_then_read_def writeIGAFile_buffer Option.bind.simps)
qed

lemma readBlock_too_large:
  assumes big: "IGA_MAX_ALLOC \<le> n" and small: "n < 2 ^ 64"
  shows "readBlock sz dec dst (of_nat n :: uint64_t) src = None"
proof -
  from small have un: "unat (of_nat n :: uint64_t) = n"
    by (simp add: unat_of_nat)
  from big have "0 < n"
    by (simp add: IGA_MAX_ALLOC_def)
  with un have nz: "(of_nat n :: uint64_t) \<noteq> 0"
    by auto
  from big nz show ?thesis
    by (simp add: readBlock_def un)
qed

lemma read_VECDICT_too_large:
  fixes v :: "double list"
  assumes big: "IGA_MAX_ALLOC \<le> length v * 8" and small: "length v * 8 < 2 ^ 64"
  shows "read_blocks g (block_bytes (cstr ''VECDICT'') (vector_bytes (le_bytes 8) v) @ rest) = None"
proof -
  have lp: "length (vector_bytes (le_bytes 8) v) = length v * 8"
    by (rule length_vector_bytes) (rule length_le_bytes)
  have "readBlock 8 (le_word :: uint8_t list \<Rightarrow> uint64_t) dst
          (of_nat (length (vector_bytes (le_bytes 8) v))) src = None" for dst src
    by (rule readBlock_too_large) (simp_all only: lp big small)
  then show ?thesis
    by (simp add: read_blocks_block_bytes read_next_block_def tag_values tag_BLOCK_marker)
qed

lemma finite_d_zeros: "list_all finite_d (replicate n d_zero)"
  by (induction n) (simp_all add: finite_d_def d_exponent_def d_zero_def)

text \<open>
  C1, as stated, fails: a model whose only content is a coefficient dictionary of
  32000000 zeros satisfies \<open>isValid\<close> and is written in full, but its \<open>VECDICT\<close> block
  is 256000000 bytes long, and \<open>readBlock\<close> refuses a block of \<open>IGA_MAX_ALLOC\<close> bytes or
  more: reading the bytes back returns \<open>false\<close>.
\<close>

theorem write_then_read_fails_on_large_dictionary:
  "isValid (IGAData_init\<lparr>mCoeffs := replicate 32000000 d_zero\<rparr>) = Inr True \<and>
   writeIGAFile buffer_writeData (IGAData_init\<lparr>mCoeffs := replicate 32000000 d_zero\<rparr>) [] \<noteq> None \<and>
   write_then_read (IGAData_init\<lparr>mCoeffs := replicate 32000000 d_zero\<rparr>) IGAData_init = None"
proof -
  let ?g = "IGAData_init\<lparr>mCoeffs := replicate 32000000 d_zero\<rparr>"
  have valid: "isValid ?g = Inr True"
    by (simp add: isValid_def IGAData_init_def finite_d_zeros)
  have srf: "length (mSrfType ?g) < IGA_MAX_ALLOC"
    by (simp add: IGAData_init_def cstr_def IGA_MAX_ALLOC_def)
  have big: "IGA_MAX_ALLOC \<le> length (mCoeffs ?g) * 8" and small: "length (mCoeffs ?g) * 8 < 2 ^ 64"
    by (simp_all add: IGA_MAX_ALLOC_def)
  have "readIGAFile IGAData_init
          (cstr ''#TSS0001'' @ block_bytes (cstr ''IGAFILE'') []
           @ block_bytes (cstr ''SRFTYPE'') (vector_bytes enc_char (mSrfType ?g))
           @ block_bytes (cstr ''VECDICT'') (vector_bytes (le_bytes 8) (mCoeffs ?g))
           @ rest) = None" for rest
    unfolding readIGAFile_def read_first_block_written option.case
      read_written_SRFTYPE [OF srf] read_VECDICT_too_large [OF big small]
    by (rule refl)
  then have "write_then_read ?g IGAData_init = None"
    by (simp only: write_then_read_def writeIGAFile_buffer Option.bind.simps)
  with valid show ?thesis
    by (simp only: writeIGAFile_buffer) simp
qed

text \<open>
  C1, amended. For every model that satisfies \<open>isValid\<close> and whose fields each take
  fewer than \<open>IGA_MAX_ALLOC\<close> (256000000) bytes in the file, writing the model with
  \<open>writeIGAFile\<close> and reading the bytes written with \<open>readIGAFile\<close>, into any model,
  succeeds and yields a model equal to the one written in all its fields: surface type,
  coefficients, points, pieces, layouts, edges, intervals and elements.
\<close>

theorem write_then_read_valid_model:
  "isValid g = Inr True \<Longrightarrow> fits_IGA_MAX_ALLOC g \<Longrightarrow> write_then_read g destination = Some g"
  by (rule write_then_read_fits)

theorem write_then_read_valid_model_witness:
  "isValid \<lparr>mSrfType = cstr ''tspline-g0'',
            mCoeffs = [0x3FF0000000000000, 0x4000000000000000, 0x4008000000000000, 0x4010000000000000],
            mPoints = [\<lparr>pt_x = 0, pt_y = 0, pt_z = 0, pt_w = 0x3FF0000000000000\<rparr>],
            mPieces = [\<lparr>st_order = 0x00020002, s_index = 0, maybe_t_index = 0xFFFFFFFF, pt_index = 0\<rparr>],
            mEdges = [0xFFFFFFFF, 0xFFFFFFFF, 0xFFFFFFFF, 0xFFFFFFFF],
            mIntervals = [], mLayouts = [],
            mElems = [\<lparr>piece_end_index = 1, layout_index = 0, edge_end_index = 4\<rparr>]\<rparr> = Inr True \<and>
   write_then_read
     \<lparr>mSrfType = cstr ''tspline-g0'',
      mCoeffs = [0x3FF0000000000000, 0x4000000000000000, 0x4008000000000000, 0x4010000000000000],
      mPoints = [\<lparr>pt_x = 0, pt_y = 0, pt_z = 0, pt_w = 0x3FF0000000000000\<rparr>],
      mPieces = [\<lparr>st_order = 0x00020002, s_index = 0, maybe_t_index = 0xFFFFFFFF, pt_index = 0\<rparr>],
      mEdges = [0xFFFFFFFF, 0xFFFFFFFF, 0xFFFFFFFF, 0xFFFFFFFF],
      mIntervals = [], mLayouts = [],
      mElems = [\<lparr>piece_end_index = 1, layout_index = 0, edge_end_index = 4\<rparr>]\<rparr>
     IGAData_init =
   Some \<lparr>mSrfType = cstr ''tspline-g0'',
         mCoeffs = [0x3FF0000000000000, 0x4000000000000000, 0x4008000000000000, 0x4010000000000000],
         mPoints = [\<lparr>pt_x = 0, pt_y = 0, pt_z = 0, pt_w = 0x3FF0000000000000\<rparr>],
         mPieces = [\<lparr>st_order = 0x00020002, s_index = 0, maybe_t_index = 0xFFFFFFFF, pt_index = 0\<rparr>],
         mEdges = [0xFFFFFFFF, 0xFFFFFFFF, 0xFFFFFFFF, 0xFFFFFFFF],
         mIntervals = [], mLayouts = [],
         mElems = [\<lparr>piece_end_index = 1, layout_index = 0, edge_end_index = 4\<rparr>]\<rparr>"
proof -
  let ?g = "\<lparr>mSrfType = cstr ''tspline-g0'',
      mCoeffs = [0x3FF0000000000000, 0x4000000000000000, 0x4008000000000000, 0x4010000000000000],
      mPoints = [\<lparr>pt_x = 0, pt_y = 0, pt_z = 0, pt_w = 0x3FF0000000000000\<rparr>],
      mPieces = [\<lparr>st_order = 0x00020002, s_index = 0, maybe_t_index = 0xFFFFFFFF, pt_index = 0\<rparr>],
      mEdges = [0xFFFFFFFF, 0xFFFFFFFF, 0xFFFFFFFF, 0xFFFFFFFF],
      mIntervals = [], mLayouts = [],
      mElems = [\<lparr>piece_end_index = 1, layout_index = 0, edge_end_index = 4\<rparr>]\<rparr>"
  have valid: "isValid ?g = Inr True"
    by (simp add: isValid_def finite_d_def d_exponent_def point_finite_def INVALID_INDEX_def
          INT_MAX_def)
  have fits: "fits_IGA_MAX_ALLOC ?g"
    by (simp add: fits_IGA_MAX_ALLOC_def IGA_MAX_ALLOC_def cstr_def)
  from valid write_then_read_valid_model [OF valid fits, of IGAData_init] show ?thesis
    by (rule conjI)
qed

subsection \<open>The end of the stream\<close>

lemma read_n_blocks_read_blocks:
  "read_n_blocks n geometry src = Some (geometry', src') \<Longrightarrow>
   read_blocks geometry src = read_blocks geometry' src'"
proof (induction n arbitrary: geometry src)
  case 0
  then show ?case by simp
next
  case (Suc n)
  from Suc.prems obtain header_bytes src1 geometry1 src2
    where hdr: "readData src 32 = Some (header_bytes, src1)"
      and blk: "read_next_block geometry (dec_BlockHeader header_bytes) src1 = Some (geometry1, src2)"
      and rest: "read_n_blocks n geometry1 src2 = Some (geometry', src')"
    by (auto split: option.splits)
  have "read_blocks geometry src = read_blocks geometry1 src2"
    by (subst read_blocks.simps) (simp add: hdr blk)
  with Suc.IH [OF rest] show ?case by simp
qed

lemma readData_block_header:
  "readData (block_bytes block_type contents @ rest) 32 =
     Some (BLOCK_marker @ le_bytes 8 (tagValue block_type) @ le_bytes 8 (0 :: uint64_t)
             @ le_bytes 8 (of_nat (length contents) :: uint64_t),
           contents @ le_bytes 8 (of_nat (length contents) :: uint64_t) @ rest)"
proof -
  let ?hdr = "BLOCK_marker @ le_bytes 8 (tagValue block_type) @ le_bytes 8 (0 :: uint64_t)
     @ le_bytes 8 (of_nat (length contents) :: uint64_t)"
  have "readData (?hdr @ (contents @ le_bytes 8 (of_nat (length contents) :: uint64_t) @ rest)) 32
               = Some (?hdr, contents @ le_bytes 8 (of_nat (length contents) :: uint64_t) @ rest)"
    by (rule readData_append) (simp add: length_BLOCK_marker length_le_bytes)
  then show ?thesis
    by (simp add: block_bytes_def)
qed

text \<open>
  C5. Once the magic and the \<open>IGAFILE\<close> block have been read and the loop has read any
  number \<open>n\<close> of blocks in full, each behind its full 32-byte header, a source with fewer
  than 32 bytes left (none, or part of a header) ends \<open>readIGAFile\<close> with \<open>true\<close> and
  with the geometry as the blocks read so far have left it.
\<close>

theorem readIGAFile_ends_at_short_header:
  "read_first_block src = Some src0 \<Longrightarrow>
   read_n_blocks n (clear geometry) src0 = Some (geometry', src') \<Longrightarrow>
   length src' < 32 \<Longrightarrow> readIGAFile geometry src = Some geometry'"
  by (simp add: readIGAFile_def read_n_blocks_read_blocks read_blocks_end)

theorem readIGAFile_ends_at_short_header_witness:
  "readIGAFile IGAData_init
     (cstr ''#TSS0001'' @ block_bytes (cstr ''IGAFILE'') []
      @ block_bytes (cstr ''EDGES'') (vector_bytes (le_bytes 4) [INVALID_INDEX])
      @ [0x0A, 0x42, 0x4C]) =
   Some (IGAData_init\<lparr>mEdges := [INVALID_INDEX]\<rparr>)"
proof -
  let ?tail = "[0x0A, 0x42, 0x4C] :: uint8_t list"
  let ?edges = "vector_bytes (le_bytes 4) [INVALID_INDEX]"
  have first: "read_first_block
     (cstr ''#TSS0001'' @ block_bytes (cstr ''IGAFILE'') [] @ block_bytes (cstr ''EDGES'') ?edges @ ?tail)
     = Some (block_bytes (cstr ''EDGES'') ?edges @ ?tail)"
    by (rule read_first_block_written)
  have block: "read_next_block (clear IGAData_init)
       (dec_BlockHeader (BLOCK_marker @ le_bytes 8 (tagValue (cstr ''EDGES'')) @ le_bytes 8 (0 :: uint64_t)
             @ le_bytes 8 (of_nat (length ?edges) :: uint64_t)))
       (?edges @ le_bytes 8 (of_nat (length ?edges) :: uint64_t) @ ?tail)
     = Some (IGAData_init\<lparr>mEdges := [INVALID_INDEX]\<rparr>, ?tail)"
    using readBlock_indices [of "[INVALID_INDEX]" "[]" ?tail]
    by (simp add: dec_BlockHeader_written read_next_block_def tag_values tag_BLOCK_marker
          IGA_MAX_ALLOC_def clear_def IGAData_init_def)
  have steps: "read_n_blocks 1 (clear IGAData_init) (block_bytes (cstr ''EDGES'') ?edges @ ?tail)
                 = Some (IGAData_init\<lparr>mEdges := [INVALID_INDEX]\<rparr>, ?tail)"
    by (simp add: readData_block_header block)
  have short: "length ?tail < 32"
    by simp
  from readIGAFile_ends_at_short_header [OF first steps short] show ?thesis .
qed

end
